theory Spec2Isabelle
  imports Complex_Main "HOL-Library.List_Lexorder" "HOL-Library.Char_ord"
begin

section \<open>Array elements\<close>

text \<open>
  The arrays of \<^verbatim>\<open>panda.py\<close> hold IEEE doubles. An element is modelled as an exact real
  number or one of the three special values; rounding, signed zeros and the overflow of
  an array operation to an infinity are not modelled. The special values follow IEEE:
  \<^verbatim>\<open>0/0\<close>, \<^verbatim>\<open>inf - inf\<close> and \<^verbatim>\<open>0 * inf\<close> are NaN, NaN is absorbing, and every comparison
  with NaN is false.
\<close>

datatype npfloat = Fin real | PInf | NInf | NaN

fun np_add :: "npfloat \<Rightarrow> npfloat \<Rightarrow> npfloat" where
  "np_add NaN _ = NaN"
| "np_add _ NaN = NaN"
| "np_add (Fin a) (Fin b) = Fin (a + b)"
| "np_add PInf NInf = NaN"
| "np_add NInf PInf = NaN"
| "np_add PInf _ = PInf"
| "np_add NInf _ = NInf"
| "np_add _ PInf = PInf"
| "np_add _ NInf = NInf"

fun np_neg :: "npfloat \<Rightarrow> npfloat" where
  "np_neg (Fin a) = Fin (- a)"
| "np_neg PInf = NInf"
| "np_neg NInf = PInf"
| "np_neg NaN = NaN"

definition np_sub :: "npfloat \<Rightarrow> npfloat \<Rightarrow> npfloat" where
  "np_sub a b = np_add a (np_neg b)"

fun np_mul :: "npfloat \<Rightarrow> npfloat \<Rightarrow> npfloat" where
  "np_mul NaN _ = NaN"
| "np_mul _ NaN = NaN"
| "np_mul (Fin a) (Fin b) = Fin (a * b)"
| "np_mul (Fin a) PInf = (if a = 0 then NaN else if 0 < a then PInf else NInf)"
| "np_mul (Fin a) NInf = (if a = 0 then NaN else if 0 < a then NInf else PInf)"
| "np_mul PInf (Fin b) = (if b = 0 then NaN else if 0 < b then PInf else NInf)"
| "np_mul NInf (Fin b) = (if b = 0 then NaN else if 0 < b then NInf else PInf)"
| "np_mul PInf PInf = PInf"
| "np_mul PInf NInf = NInf"
| "np_mul NInf PInf = NInf"
| "np_mul NInf NInf = PInf"

fun np_div :: "npfloat \<Rightarrow> npfloat \<Rightarrow> npfloat" where
  "np_div NaN _ = NaN"
| "np_div _ NaN = NaN"
| "np_div (Fin a) (Fin b) =
     (if b \<noteq> 0 then Fin (a / b)
      else if a = 0 then NaN else if 0 < a then PInf else NInf)"
| "np_div (Fin a) PInf = Fin 0"
| "np_div (Fin a) NInf = Fin 0"
| "np_div PInf (Fin b) = (if 0 \<le> b then PInf else NInf)"
| "np_div NInf (Fin b) = (if 0 \<le> b then NInf else PInf)"
| "np_div PInf PInf = NaN"
| "np_div PInf NInf = NaN"
| "np_div NInf PInf = NaN"
| "np_div NInf NInf = NaN"

fun np_sqrt :: "npfloat \<Rightarrow> npfloat" where
  "np_sqrt (Fin a) = (if 0 \<le> a then Fin (sqrt a) else NaN)"
| "np_sqrt PInf = PInf"
| "np_sqrt NInf = NaN"
| "np_sqrt NaN = NaN"

fun np_abs :: "npfloat \<Rightarrow> npfloat" where
  "np_abs (Fin a) = Fin \<bar>a\<bar>"
| "np_abs PInf = PInf"
| "np_abs NInf = PInf"
| "np_abs NaN = NaN"

definition np_square :: "npfloat \<Rightarrow> npfloat" where
  "np_square a = np_mul a a"

fun np_isnan :: "npfloat \<Rightarrow> bool" where
  "np_isnan NaN = True"
| "np_isnan _ = False"

text \<open>\<^verbatim>\<open>a > b\<close> and \<^verbatim>\<open>a <= b\<close> on doubles.\<close>

fun np_gt :: "npfloat \<Rightarrow> npfloat \<Rightarrow> bool" where
  "np_gt NaN _ = False"
| "np_gt _ NaN = False"
| "np_gt (Fin a) (Fin b) = (b < a)"
| "np_gt PInf PInf = False"
| "np_gt PInf _ = True"
| "np_gt NInf _ = False"
| "np_gt (Fin a) PInf = False"
| "np_gt (Fin a) NInf = True"

fun np_le :: "npfloat \<Rightarrow> npfloat \<Rightarrow> bool" where
  "np_le NaN _ = False"
| "np_le _ NaN = False"
| "np_le (Fin a) (Fin b) = (a \<le> b)"
| "np_le NInf _ = True"
| "np_le _ PInf = True"
| "np_le PInf _ = False"
| "np_le (Fin a) NInf = False"

section \<open>Exceptions\<close>

text \<open>
  The exceptions that the modelled code raises. A computation that may raise returns
  \<open>Inl\<close> of the exception or \<open>Inr\<close> of its value; \<open>bind_err\<close> is sequencing: the first
  exception ends the computation.
\<close>

datatype error = ValueError | AttributeError | TypeError | OverflowError

definition bind_err :: "error + 'a \<Rightarrow> ('a \<Rightarrow> error + 'b) \<Rightarrow> error + 'b" where
  "bind_err m f = (case m of Inl e \<Rightarrow> Inl e | Inr v \<Rightarrow> f v)"

text \<open>
  \<^verbatim>\<open>math.exp\<close> works on Python floats and raises \<^verbatim>\<open>OverflowError\<close> when the result is
  beyond the largest finite double (for an argument above about 709.78).
\<close>

definition float_max :: real where
  "float_max = (2 ^ 53 - 1) * 2 ^ 971"

definition math_exp :: "real \<Rightarrow> error + real" where
  "math_exp x = (if float_max < exp x then Inl OverflowError else Inr (exp x))"

section \<open>Arrays\<close>

text \<open>
  A one-dimensional array is a list, a two-dimensional array the list of its rows, all of
  one length. An array with no row has the shape \<open>(0, 0)\<close>: the shapes \<open>(0, c)\<close> with
  \<open>c > 0\<close> are not represented, and the theorems below are about arrays with at least one
  row and one column.
\<close>

type_synonym ndarray = "npfloat list list"

definition shape0 :: "'a list list \<Rightarrow> nat" where
  "shape0 x = length x"

definition shape1 :: "'a list list \<Rightarrow> nat" where
  "shape1 x = (case x of [] \<Rightarrow> 0 | r # _ \<Rightarrow> length r)"

definition np_transpose :: "'a list list \<Rightarrow> 'a list list" where
  "np_transpose x = map (\<lambda>j. map (\<lambda>r. r ! j) x) [0..<shape1 x]"

primrec np_sum :: "npfloat list \<Rightarrow> npfloat" where
  "np_sum [] = Fin 0"
| "np_sum (x # xs) = np_add x (np_sum xs)"

definition np_mean :: "npfloat list \<Rightarrow> npfloat" where
  "np_mean xs = np_div (np_sum xs) (Fin (real (length xs)))"

text \<open>\<^verbatim>\<open>np.std\<close> (population standard deviation, \<^verbatim>\<open>ddof = 0\<close>).\<close>

definition np_std :: "npfloat list \<Rightarrow> npfloat" where
  "np_std xs =
     (let m = np_mean xs
      in np_sqrt (np_mean (map (\<lambda>v. np_square (np_abs (np_sub v m))) xs)))"

text \<open>\<^verbatim>\<open>np.nanstd\<close> of one row: the NaN entries are left out; a row of NaN only gives NaN.\<close>

definition np_nanstd :: "npfloat list \<Rightarrow> npfloat" where
  "np_nanstd xs =
     (let ys = filter (\<lambda>v. \<not> np_isnan v) xs
      in if ys = [] then NaN else np_std ys)"

text \<open>
  \<^verbatim>\<open>np.dot(x, y)\<close>: numpy raises \<^verbatim>\<open>ValueError\<close> unless \<open>x\<close> has as many columns as \<open>y\<close> has
  rows.
\<close>

definition np_dot :: "ndarray \<Rightarrow> ndarray \<Rightarrow> error + ndarray" where
  "np_dot x y =
     (if shape1 x = shape0 y
      then Inr (map (\<lambda>r. map (\<lambda>c. np_sum (map2 np_mul r c)) (np_transpose y)) x)
      else Inl ValueError)"

text \<open>An operation on every element, and an operation of an array with a scalar.\<close>

definition ew1 :: "(npfloat \<Rightarrow> npfloat) \<Rightarrow> ndarray \<Rightarrow> ndarray" where
  "ew1 f a = map (map f) a"

text \<open>
  A binary operation \<^verbatim>\<open>a + b\<close>, \<^verbatim>\<open>a - b\<close> on two arrays, with numpy's broadcasting: on
  each axis the two lengths are equal or one of them is 1 (that operand is then repeated
  along the axis); otherwise numpy raises \<^verbatim>\<open>ValueError\<close>.
\<close>

definition broadcast_dim :: "nat \<Rightarrow> nat \<Rightarrow> nat option" where
  "broadcast_dim m n =
     (if m = n then Some m else if m = 1 then Some n else if n = 1 then Some m else None)"

definition bc_nth :: "ndarray \<Rightarrow> nat \<Rightarrow> nat \<Rightarrow> npfloat" where
  "bc_nth a i j = a ! (if shape0 a = 1 then 0 else i) ! (if shape1 a = 1 then 0 else j)"

definition np_broadcast2 ::
  "(npfloat \<Rightarrow> npfloat \<Rightarrow> npfloat) \<Rightarrow> ndarray \<Rightarrow> ndarray \<Rightarrow> error + ndarray" where
  "np_broadcast2 f a b =
     (case broadcast_dim (shape0 a) (shape0 b) of
        None \<Rightarrow> Inl ValueError
      | Some r \<Rightarrow>
          (case broadcast_dim (shape1 a) (shape1 b) of
             None \<Rightarrow> Inl ValueError
           | Some c \<Rightarrow>
               Inr (map (\<lambda>i. map (\<lambda>j. f (bc_nth a i j) (bc_nth b i j)) [0..<c]) [0..<r])))"

text \<open>
  The in-place form \<^verbatim>\<open>a += b\<close>: the result is stored in \<open>a\<close>, so numpy also raises
  \<^verbatim>\<open>ValueError\<close> when the broadcast shape is not the shape of \<open>a\<close>.
\<close>

definition np_inplace2 ::
  "(npfloat \<Rightarrow> npfloat \<Rightarrow> npfloat) \<Rightarrow> ndarray \<Rightarrow> ndarray \<Rightarrow> error + ndarray" where
  "np_inplace2 f a b =
     (if broadcast_dim (shape0 a) (shape0 b) = Some (shape0 a)
         \<and> broadcast_dim (shape1 a) (shape1 b) = Some (shape1 a)
      then np_broadcast2 f a b
      else Inl ValueError)"

text \<open>
  A binary operation on two arrays that have the same shape by construction (the normalizer
  only combines arrays of the shape of its argument), where numpy neither broadcasts nor
  raises.
\<close>

definition ew2 :: "(npfloat \<Rightarrow> npfloat \<Rightarrow> npfloat) \<Rightarrow> ndarray \<Rightarrow> ndarray \<Rightarrow> ndarray" where
  "ew2 f a b = map2 (map2 f) a b"

text \<open>\<^verbatim>\<open>np.fill_diagonal(a, val)\<close>, the value for row \<open>i\<close> given by \<open>val i\<close>.\<close>

definition fill_diagonal :: "ndarray \<Rightarrow> (nat \<Rightarrow> npfloat) \<Rightarrow> ndarray" where
  "fill_diagonal a val = map (\<lambda>i. (a ! i)[i := val i]) [0..<length a]"

section \<open>The similarity kernel and the diagonal update\<close>

text \<open>
  \<^verbatim>\<open>t_function(x, y=None)\<close>: with one argument the rows of \<open>x\<close> are compared with each
  other, with two the rows of \<open>x\<close> with the columns of \<open>y\<close>. Once \<^verbatim>\<open>np.dot\<close> has returned,
  the denominator has the shape of \<open>a_matrix\<close> (a row of column sums plus a column of row
  sums), so the division raises nothing.
\<close>

definition t_function :: "ndarray \<Rightarrow> ndarray option \<Rightarrow> error + ndarray" where
  "t_function x yo =
     (case yo of
        None \<Rightarrow>
          bind_err (np_dot x (np_transpose x)) (\<lambda>a_matrix.
            let s = map (\<lambda>r. np_sum (map np_square r)) x
            in Inr (map (\<lambda>i. map (\<lambda>j.
                     np_div (a_matrix ! i ! j)
                       (np_sqrt (np_sub (np_add (s ! j) (s ! i)) (np_abs (a_matrix ! i ! j)))))
                   [0..<length x]) [0..<length x]))
      | Some y \<Rightarrow>
          bind_err (np_dot x y) (\<lambda>a_matrix.
            let sy = map (\<lambda>c. np_sum (map np_square c)) (np_transpose y);
                sx = map (\<lambda>r. np_sum (map np_square r)) x
            in Inr (map (\<lambda>i. map (\<lambda>j.
                     np_div (a_matrix ! i ! j)
                       (np_sqrt (np_sub (np_add (sy ! j) (sx ! i)) (np_abs (a_matrix ! i ! j)))))
                   [0..<shape1 y]) [0..<length x])))"

text \<open>
  \<^verbatim>\<open>update_diagonal(diagonal_matrix, num, alpha, step)\<close>; the array is updated in place in
  the source and returned here. \<^verbatim>\<open>math.exp(2 * alpha * step)\<close> is called after the
  standard deviations have been taken and may raise \<^verbatim>\<open>OverflowError\<close>.
\<close>

definition update_diagonal :: "ndarray \<Rightarrow> nat \<Rightarrow> real \<Rightarrow> nat \<Rightarrow> error + ndarray" where
  "update_diagonal diagonal_matrix num alpha stp =
     (let m1 = fill_diagonal diagonal_matrix (\<lambda>i. NaN);
          diagonal_std = map np_nanstd m1
      in bind_err (math_exp (2 * alpha * real stp)) (\<lambda>e.
           let diagonal_fill = map (\<lambda>sd. np_mul (np_mul sd (Fin (real num))) (Fin e)) diagonal_std
           in Inr (fill_diagonal m1 (\<lambda>i. diagonal_fill ! i))))"

section \<open>The convergence loop\<close>

datatype computing = Cpu | Gpu | OtherComputing

record panda_state =
  motif_matrix :: ndarray
  ppi_matrix :: ndarray
  correlation_matrix :: ndarray
  step :: nat
  hamming :: npfloat

definition tolerance :: npfloat where
  "tolerance = Fin (1 / 1000)"

text \<open>\<^verbatim>\<open>W = 0.5 * (t_function(ppi_matrix, motif_matrix) + t_function(motif_matrix, correlation_matrix))\<close>\<close>

definition consensus :: "panda_state \<Rightarrow> error + ndarray" where
  "consensus s =
     bind_err (t_function (ppi_matrix s) (Some (motif_matrix s))) (\<lambda>r.
     bind_err (t_function (motif_matrix s) (Some (correlation_matrix s))) (\<lambda>a.
     bind_err (np_broadcast2 np_add r a) (\<lambda>ra.
       Inr (ew1 (np_mul (Fin (1 / 2))) ra))))"

text \<open>\<^verbatim>\<open>np.abs(motif_matrix - W).mean()\<close>\<close>

definition mean_abs_diff :: "ndarray \<Rightarrow> ndarray \<Rightarrow> error + npfloat" where
  "mean_abs_diff m w =
     bind_err (np_broadcast2 np_sub m w) (\<lambda>d. Inr (np_mean (concat (ew1 np_abs d))))"

text \<open>\<^verbatim>\<open>a *= (1 - alpha); a += (alpha * b)\<close>\<close>

definition blend :: "real \<Rightarrow> ndarray \<Rightarrow> ndarray \<Rightarrow> error + ndarray" where
  "blend alpha a b =
     np_inplace2 np_add (ew1 (\<lambda>v. np_mul v (Fin (1 - alpha))) a) (ew1 (np_mul (Fin alpha)) b)"

text \<open>
  One pass of the body of \<^verbatim>\<open>while hamming > 0.001\<close>; an exception raised by a statement
  ends the pass. The three arrays are distinct objects, as in the constructor, so that
  updating one in place leaves the others. The two backends run the same array operations
  (cupy mirrors numpy); with any other value of \<^verbatim>\<open>computing\<close> neither branch is taken
  and only the step counter advances.
\<close>

definition array_pass :: "real \<Rightarrow> nat \<Rightarrow> nat \<Rightarrow> panda_state \<Rightarrow> error + panda_state" where
  "array_pass alpha num_tfs num_genes s =
     bind_err (consensus s) (\<lambda>W.
     bind_err (mean_abs_diff (motif_matrix s) W) (\<lambda>h.
     bind_err (blend alpha (motif_matrix s) W) (\<lambda>m.
       let s1 = s\<lparr>motif_matrix := m, hamming := h\<rparr>
       in if np_gt h tolerance then
            bind_err (t_function m None) (\<lambda>ppi0.
            bind_err (update_diagonal ppi0 num_tfs alpha (step s)) (\<lambda>ppi.
            bind_err (blend alpha (ppi_matrix s) ppi) (\<lambda>p.
            bind_err (t_function (np_transpose m) None) (\<lambda>motif0.
            bind_err (update_diagonal motif0 num_genes alpha (step s)) (\<lambda>motif.
            bind_err (blend alpha (correlation_matrix s) motif) (\<lambda>c.
              Inr (s1\<lparr>ppi_matrix := p, correlation_matrix := c\<rparr>)))))))
          else Inr s1)))"

definition panda_pass ::
  "computing \<Rightarrow> real \<Rightarrow> nat \<Rightarrow> nat \<Rightarrow> panda_state \<Rightarrow> error + panda_state" where
  "panda_pass backend alpha num_tfs num_genes s =
     bind_err (if backend = Gpu then array_pass alpha num_tfs num_genes s
               else if backend = Cpu then array_pass alpha num_tfs num_genes s
               else Inr s)
       (\<lambda>s'. Inr (s'\<lparr>step := step s + 1\<rparr>))"

text \<open>
  The loop: \<open>None\<close> is a loop that never ends, \<open>Some (Inl e)\<close> a loop ended by the
  exception \<open>e\<close>, \<open>Some (Inr s)\<close> a loop left through its test.
\<close>

partial_function (option) panda_while ::
  "computing \<Rightarrow> real \<Rightarrow> nat \<Rightarrow> nat \<Rightarrow> panda_state \<Rightarrow> (error + panda_state) option" where
  "panda_while backend alpha num_tfs num_genes s =
     (if np_gt (hamming s) tolerance
      then (case panda_pass backend alpha num_tfs num_genes s of
              Inl e \<Rightarrow> Some (Inl e)
            | Inr s' \<Rightarrow> panda_while backend alpha num_tfs num_genes s')
      else Some (Inr s))"

text \<open>The state after \<open>n\<close> further passes of the loop body, or the exception raised on the way.\<close>

fun after_passes ::
  "computing \<Rightarrow> real \<Rightarrow> nat \<Rightarrow> nat \<Rightarrow> nat \<Rightarrow> panda_state \<Rightarrow> error + panda_state" where
  "after_passes backend alpha num_tfs num_genes 0 s = Inr s"
| "after_passes backend alpha num_tfs num_genes (Suc n) s =
     (case panda_pass backend alpha num_tfs num_genes s of
        Inl e \<Rightarrow> Inl e
      | Inr s' \<Rightarrow> after_passes backend alpha num_tfs num_genes n s')"

definition initial_state :: "ndarray \<Rightarrow> ndarray \<Rightarrow> ndarray \<Rightarrow> panda_state" where
  "initial_state correlation motif ppi =
     \<lparr>motif_matrix = motif, ppi_matrix = ppi, correlation_matrix = correlation,
      step = 0, hamming = Fin 1\<rparr>"

text \<open>
  \<^verbatim>\<open>panda_loop(correlation_matrix, motif_matrix, ppi_matrix, computing, alpha)\<close>: the value
  returned is the motif matrix; \<open>None\<close> stands for a loop that never ends and
  \<open>Some (Inl e)\<close> for a call ended by the exception \<open>e\<close>.
\<close>

definition panda_loop ::
  "ndarray \<Rightarrow> ndarray \<Rightarrow> ndarray \<Rightarrow> computing \<Rightarrow> real \<Rightarrow> (error + ndarray) option" where
  "panda_loop correlation motif ppi backend alpha =
     map_option (map_sum id motif_matrix)
       (panda_while backend alpha (shape0 motif) (shape1 motif)
          (initial_state correlation motif ppi))"

section \<open>Network normalization\<close>

text \<open>
  \<^verbatim>\<open>scipy.stats.zscore(a, axis)\<close> with its defaults (\<^verbatim>\<open>ddof = 0\<close>): every column
  (\<^verbatim>\<open>axis = 0\<close>) or every row (\<^verbatim>\<open>axis = 1\<close>) is centred on its mean and divided by its
  standard deviation.
\<close>

definition zscore_1d :: "npfloat list \<Rightarrow> npfloat list" where
  "zscore_1d a =
     (let mn = np_mean a; sd = np_std a
      in map (\<lambda>v. np_div (np_sub v mn) sd) a)"

definition zscore :: "ndarray \<Rightarrow> nat \<Rightarrow> ndarray" where
  "zscore x axis =
     (if axis = 0 then np_transpose (map zscore_1d (np_transpose x))
      else map zscore_1d x)"

text \<open>\<^verbatim>\<open>a[mask] = b[mask]\<close> for a boolean mask of the shape of \<open>a\<close>.\<close>

definition masked_assign :: "ndarray \<Rightarrow> bool list list \<Rightarrow> ndarray \<Rightarrow> ndarray" where
  "masked_assign a msk b =
     map (\<lambda>i. map (\<lambda>j. if msk ! i ! j then b ! i ! j else a ! i ! j) [0..<length (a ! i)])
       [0..<length a]"

definition mask_and :: "bool list list \<Rightarrow> bool list list \<Rightarrow> bool list list" where
  "mask_and p q = map2 (map2 (\<and>)) p q"

text \<open>\<^verbatim>\<open>_normalize_network(self, x)\<close>\<close>

definition normalize_network :: "ndarray \<Rightarrow> ndarray" where
  "normalize_network x =
     (let norm_col = zscore x 0;
          norm_row = (if shape0 x = shape1 x then np_transpose norm_col else zscore x 1);
          sqrt2 = Fin (sqrt 2);
          normalized_matrix = ew1 (\<lambda>v. np_div v sqrt2) (ew2 np_add norm_col norm_row);
          norm_total =
            ew1 (\<lambda>v. np_div (np_sub v (np_mean (concat x))) (np_std (concat x))) x;
          nan_col = map (map np_isnan) norm_col;
          nan_row = map (map np_isnan) norm_row;
          nm1 = masked_assign normalized_matrix nan_col
                  (ew1 (\<lambda>v. np_div v sqrt2) (ew2 np_add norm_row norm_total));
          nm2 = masked_assign nm1 nan_row
                  (ew1 (\<lambda>v. np_div v sqrt2) (ew2 np_add norm_col norm_total));
          nm3 = masked_assign nm2 (mask_and nan_col nan_row)
                  (ew1 (\<lambda>v. np_div (np_mul (Fin 2) v) sqrt2) norm_total)
      in nm3)"

text \<open>
  The formula of the specification, on real numbers: the z-score of entry \<open>(i, j)\<close> within
  its column and within its row, and their sum over \<open>sqrt 2\<close>; on a square matrix the row
  z-score is the transposed column z-score.
\<close>

definition mean_r :: "real list \<Rightarrow> real" where
  "mean_r xs = sum_list xs / real (length xs)"

definition std_r :: "real list \<Rightarrow> real" where
  "std_r xs = sqrt (mean_r (map (\<lambda>v. (v - mean_r xs)\<^sup>2) xs))"

definition column :: "real list list \<Rightarrow> nat \<Rightarrow> real list" where
  "column x j = map (\<lambda>r. r ! j) x"

definition z_col :: "real list list \<Rightarrow> nat \<Rightarrow> nat \<Rightarrow> real" where
  "z_col x i j = (x ! i ! j - mean_r (column x j)) / std_r (column x j)"

definition z_row :: "real list list \<Rightarrow> nat \<Rightarrow> nat \<Rightarrow> real" where
  "z_row x i j = (x ! i ! j - mean_r (x ! i)) / std_r (x ! i)"

definition spec_normalized :: "real list list \<Rightarrow> nat \<Rightarrow> nat \<Rightarrow> real" where
  "spec_normalized x i j =
     (z_col x i j + (if length x = length (hd x) then z_col x j i else z_row x i j)) / sqrt 2"

text \<open>A real matrix with \<open>r\<close> rows and \<open>c\<close> columns, as an array.\<close>

definition is_matrix :: "'a list list \<Rightarrow> nat \<Rightarrow> nat \<Rightarrow> bool" where
  "is_matrix x r c \<longleftrightarrow> length x = r \<and> list_all (\<lambda>row. length row = c) x"

definition of_reals :: "real list list \<Rightarrow> ndarray" where
  "of_reals x = map (map Fin) x"

section \<open>The edge list\<close>

text \<open>
  \<^verbatim>\<open>np.tile(xs, (n, 1)).flatten()\<close>, \<^verbatim>\<open>np.repeat(xs, n)\<close> and \<^verbatim>\<open>m.flatten(order='F')\<close>.
\<close>

definition np_tile :: "'a list \<Rightarrow> nat \<Rightarrow> 'a list" where
  "np_tile xs n = concat (replicate n xs)"

definition np_repeat :: "'a list \<Rightarrow> nat \<Rightarrow> 'a list" where
  "np_repeat xs n = concat (map (replicate n) xs)"

definition flatten_F :: "'a list list \<Rightarrow> 'a list" where
  "flatten_F m = concat (np_transpose m)"

text \<open>
  The tail of \<^verbatim>\<open>panda_loop\<close>, run when the object still has \<^verbatim>\<open>unique_tfs\<close>: the data frame
  with the columns \<^verbatim>\<open>tf\<close>, \<^verbatim>\<open>gene\<close>, \<^verbatim>\<open>motif\<close>, \<^verbatim>\<open>force\<close>, as the list of its rows. pandas
  raises \<^verbatim>\<open>ValueError\<close> when the four columns differ in length.
\<close>

definition export_panda_results ::
  "string list \<Rightarrow> string list \<Rightarrow> ndarray \<Rightarrow> ndarray
     \<Rightarrow> error + (string \<times> string \<times> npfloat \<times> npfloat) list" where
  "export_panda_results unique_tfs gene_names motif_unnormalized final_matrix =
     (let tfs = np_tile unique_tfs (length gene_names);
          genes = np_repeat gene_names (length unique_tfs);
          motif = flatten_F motif_unnormalized;
          force = flatten_F final_matrix
      in if length tfs = length genes \<and> length genes = length motif \<and> length motif = length force
         then Inr (zip tfs (zip genes (zip motif force)))
         else Inl ValueError)"

section \<open>Input alignment\<close>

text \<open>
  The inputs of \<^verbatim>\<open>processData\<close> are modelled as tables already in memory (reading a file
  into a data frame is outside the model, and so is the check that an argument is a data
  frame): a motif or PPI table is the list of its rows (column 0, column 1, weight), the
  expression table the list of its rows (gene label, values); \<open>None\<close> is an absent table.
\<close>

type_synonym triples = "(string \<times> string \<times> npfloat) list"

type_synonym expression_frame = "(string \<times> npfloat list) list"

datatype mode_process = Legacy | Union | Intersection | OtherMode

record panda_input =
  modeProcess :: mode_process
  motif_file :: "triples option"
  expression_file :: "expression_frame option"
  ppi_file :: "triples option"
  remove_missing :: bool

text \<open>\<^verbatim>\<open>sorted(set(xs))\<close>, \<^verbatim>\<open>np.unique(xs)\<close> and \<^verbatim>\<open>sorted(xs)\<close> on labels.\<close>

definition sorted_set :: "string list \<Rightarrow> string list" where
  "sorted_set xs = sort (remdups xs)"

definition np_unique :: "string list \<Rightarrow> string list" where
  "np_unique xs = sort (remdups xs)"

definition py_sorted :: "string list \<Rightarrow> string list" where
  "py_sorted xs = sort xs"

text \<open>\<^verbatim>\<open>{x: i for i, x in enumerate(xs)}\<close> (a later duplicate wins) and \<^verbatim>\<open>d.get(k, default)\<close>.\<close>

definition enumerate_dict :: "string list \<Rightarrow> (string \<rightharpoonup> nat)" where
  "enumerate_dict xs = map_of (rev (zip xs [0..<length xs]))"

definition dict_get :: "(string \<rightharpoonup> nat) \<Rightarrow> string \<Rightarrow> nat \<Rightarrow> nat" where
  "dict_get d k dflt = (case d k of None \<Rightarrow> dflt | Some v \<Rightarrow> v)"

definition col0 :: "triples \<Rightarrow> string list" where
  "col0 d = map (\<lambda>(a, b, w). a) d"

definition col1 :: "triples \<Rightarrow> string list" where
  "col1 d = map (\<lambda>(a, b, w). b) d"

definition col2 :: "triples \<Rightarrow> npfloat list" where
  "col2 d = map (\<lambda>(a, b, w). w) d"

text \<open>
  \<^verbatim>\<open>__remove_missing\<close>: the three tables, filtered; \<open>gene_names\<close> is the attribute as set
  while loading (the motif genes when there is no expression table).
\<close>

definition remove_missing_tables ::
  "triples \<Rightarrow> expression_frame option \<Rightarrow> triples option \<Rightarrow> string list
     \<Rightarrow> triples \<times> expression_frame option \<times> triples option" where
  "remove_missing_tables motif_data expression_data ppi_data gene_names0 =
     (let expression_data' =
            map_option (filter (\<lambda>(g, vs). g \<in> set (col1 motif_data))) expression_data;
          gene_names =
            (case expression_data' of None \<Rightarrow> gene_names0 | Some e \<Rightarrow> map fst e);
          motif_data' = filter (\<lambda>(a, b, w). b \<in> set gene_names) motif_data;
          ppi_data' =
            map_option (\<lambda>p. filter (\<lambda>(a, b, w). b \<in> set (col0 motif_data'))
                              (filter (\<lambda>(a, b, w). a \<in> set (col0 motif_data')) p))
              ppi_data
      in (motif_data', expression_data', ppi_data'))"

text \<open>
  The canonical gene and TF sequences (the three branches on \<^verbatim>\<open>modeProcess\<close>). With any
  other mode an attribute is never set and reading it raises \<^verbatim>\<open>AttributeError\<close>.
\<close>

definition canonical_labels ::
  "mode_process \<Rightarrow> bool \<Rightarrow> bool \<Rightarrow> string list \<Rightarrow> string list \<Rightarrow> string list \<Rightarrow> string list
     \<Rightarrow> error + (string list \<times> string list)" where
  "canonical_labels md motif_is_none expression_is_none
       motif_genes motif_tfs expression_genes ppi_tfs =
     (if md = Legacy then
        Inr (if \<not> expression_is_none then expression_genes else motif_genes,
             if motif_is_none then ppi_tfs else motif_tfs)
      else if md = Union then
        Inr (py_sorted (np_unique (motif_genes @ expression_genes)),
             py_sorted (np_unique (ppi_tfs @ motif_tfs)))
      else if md = Intersection then
        (if motif_is_none then
           Inr (py_sorted (np_unique expression_genes), py_sorted (np_unique ppi_tfs))
         else
           Inr (py_sorted (np_unique
                  (filter (\<lambda>g. g \<in> set expression_genes) (remdups motif_genes))),
                py_sorted (np_unique
                  (filter (\<lambda>t. t \<in> set motif_tfs) (remdups ppi_tfs)))))
      else Inl AttributeError)"

definition np_zeros :: "nat \<Rightarrow> nat \<Rightarrow> ndarray" where
  "np_zeros r c = replicate r (replicate c (Fin 0))"

definition np_identity :: "nat \<Rightarrow> ndarray" where
  "np_identity n = map (\<lambda>i. map (\<lambda>j. if i = j then Fin 1 else Fin 0) [0..<n]) [0..<n]"

text \<open>
  \<^verbatim>\<open>np.ravel_multi_index((rows, cols), shape)\<close> on two index lists of one length (the two
  label columns of one table): the flat positions; \<^verbatim>\<open>TypeError\<close> when the lists are empty
  (numpy makes an empty list an array of floats, which are no indices), \<^verbatim>\<open>ValueError\<close>
  when a coordinate is outside the shape. And \<^verbatim>\<open>a.ravel()[idx] = values\<close>, the assignments
  made in order, so that of two values for one position the later stays.
\<close>

definition ravel_multi_index :: "nat list \<times> nat list \<Rightarrow> nat \<times> nat \<Rightarrow> error + nat list" where
  "ravel_multi_index coords shp =
     (case coords of (rs, cs) \<Rightarrow> case shp of (r, c) \<Rightarrow>
        if rs = [] \<or> cs = [] then Inl TypeError
        else if list_all (\<lambda>i. i < r) rs \<and> list_all (\<lambda>j. j < c) cs
        then Inr (map2 (\<lambda>i j. i * c + j) rs cs)
        else Inl ValueError)"

definition ravel_assign :: "ndarray \<Rightarrow> nat \<Rightarrow> nat list \<Rightarrow> npfloat list \<Rightarrow> ndarray" where
  "ravel_assign a c idx vals =
     foldl (\<lambda>m (k, v). m[k div c := (m ! (k div c))[k mod c := v]]) a (zip idx vals)"

text \<open>\<^verbatim>\<open>Creating motif network\<close>\<close>

definition build_motif_matrix :: "string list \<Rightarrow> string list \<Rightarrow> triples \<Rightarrow> error + ndarray" where
  "build_motif_matrix unique_tfs gene_names motif_data =
     (let num_tfs = length unique_tfs;
          num_genes = length gene_names;
          gene2idx = enumerate_dict gene_names;
          tf2idx = enumerate_dict unique_tfs;
          motif_matrix_unnormalized = np_zeros num_tfs num_genes;
          idx_tfs = map (\<lambda>x. dict_get tf2idx x 0) (col0 motif_data);
          idx_genes = map (\<lambda>x. dict_get gene2idx x 0) (col1 motif_data)
      in case ravel_multi_index (idx_tfs, idx_genes) (num_tfs, num_genes) of
           Inl e \<Rightarrow> Inl e
         | Inr idx \<Rightarrow> Inr (ravel_assign motif_matrix_unnormalized num_genes idx (col2 motif_data)))"

text \<open>\<^verbatim>\<open>Creating PPI network\<close>\<close>

definition build_ppi_matrix :: "string list \<Rightarrow> triples option \<Rightarrow> error + ndarray" where
  "build_ppi_matrix unique_tfs ppi_data =
     (let num_tfs = length unique_tfs;
          tf2idx = enumerate_dict unique_tfs
      in case ppi_data of
           None \<Rightarrow> Inr (np_identity num_tfs)
         | Some p \<Rightarrow>
             (let idx_tf1 = map (\<lambda>x. dict_get tf2idx x 0) (col0 p);
                  idx_tf2 = map (\<lambda>x. dict_get tf2idx x 0) (col1 p)
              in case ravel_multi_index (idx_tf1, idx_tf2) (num_tfs, num_tfs) of
                   Inl e \<Rightarrow> Inl e
                 | Inr idx \<Rightarrow>
                     (let m1 = ravel_assign (np_identity num_tfs) num_tfs idx (col2 p)
                      in case ravel_multi_index (idx_tf2, idx_tf1) (num_tfs, num_tfs) of
                           Inl e \<Rightarrow> Inl e
                         | Inr idx' \<Rightarrow> Inr (ravel_assign m1 num_tfs idx' (col2 p)))))"

section \<open>Data processing and the constructor\<close>

text \<open>A labelled data frame \<^verbatim>\<open>pd.DataFrame(values, index=..., columns=...)\<close>.\<close>

record labelled_matrix =
  df_index :: "string list"
  df_columns :: "string list"
  df_values :: ndarray

text \<open>pandas raises \<^verbatim>\<open>ValueError\<close> when the labels do not fit the shape of the values.\<close>

definition pd_DataFrame :: "ndarray \<Rightarrow> string list \<Rightarrow> string list \<Rightarrow> error + labelled_matrix" where
  "pd_DataFrame v idx cols =
     (if shape0 v = length idx \<and> shape1 v = length cols
      then Inr \<lparr>df_index = idx, df_columns = cols, df_values = v\<rparr>
      else Inl ValueError)"

text \<open>
  \<^verbatim>\<open>export_panda_results\<close> holds the three-column frame of \<^verbatim>\<open>__pearson_results_data_frame\<close>
  or the four-column frame made at the end of \<^verbatim>\<open>panda_loop\<close>.
\<close>

datatype export =
    PearsonEdges "(string \<times> string \<times> npfloat) list"
  | PandaEdges "(string \<times> string \<times> npfloat \<times> npfloat) list"

text \<open>
  The attributes of the object that later steps read. \<^verbatim>\<open>hasattr(self, 'export_panda_results')\<close>
  is \<open>self_export_panda_results \<noteq> None\<close>.
\<close>

record panda_obj =
  self_motif_data :: "triples option"
  self_gene_names :: "string list"
  self_unique_tfs :: "string list"
  self_expression_genes :: "string list"
  self_correlation_matrix :: ndarray
  self_motif_matrix_unnormalized :: "ndarray option"
  self_ppi_matrix :: "ndarray option"
  self_export_panda_results :: "export option"
  self_panda_network :: "labelled_matrix option"

text \<open>\<^verbatim>\<open>__pearson_results_data_frame\<close>: the frame with the columns \<^verbatim>\<open>tf\<close>, \<^verbatim>\<open>gene\<close>, \<^verbatim>\<open>force\<close>.\<close>

definition pearson_results_data_frame ::
  "string list \<Rightarrow> ndarray \<Rightarrow> error + (string \<times> string \<times> npfloat) list" where
  "pearson_results_data_frame gene_names panda_network =
     (let genes_1 = np_tile gene_names (length gene_names);
          genes_2 = np_repeat gene_names (length gene_names);
          flat_panda_network = flatten_F panda_network
      in if length genes_1 = length genes_2 \<and> length genes_2 = length flat_panda_network
         then Inr (zip genes_1 (zip genes_2 flat_panda_network))
         else Inl ValueError)"

text \<open>
  \<^verbatim>\<open>np.nan_to_num\<close>: NaN becomes 0 and an infinity the largest finite double of its sign.
\<close>

fun nan_to_num :: "npfloat \<Rightarrow> npfloat" where
  "nan_to_num NaN = Fin 0"
| "nan_to_num PInf = Fin float_max"
| "nan_to_num NInf = Fin (- float_max)"
| "nan_to_num (Fin a) = Fin a"

text \<open>
  The expression table aligned to the canonical genes (union and intersection modes): a
  row whose label is not canonical is written at row 0.
\<close>

definition reindex_expression ::
  "string list \<Rightarrow> string list \<Rightarrow> expression_frame \<Rightarrow> expression_frame" where
  "reindex_expression gene_names expression_genes expression_data =
     (let gene2idx = enumerate_dict gene_names;
          expression = np_zeros (length gene_names) (shape1 (map snd expression_data));
          idx_geneEx = map (\<lambda>x. dict_get gene2idx x 0) expression_genes
      in zip gene_names
           (foldl (\<lambda>m (i, row). m[i := row]) expression (zip idx_geneEx (map snd expression_data))))"

text \<open>
  \<^verbatim>\<open>Calculating coexpression network\<close>. \<^verbatim>\<open>np.corrcoef\<close> is a parameter: the function
  from the rows of the expression table to their correlation matrix.
\<close>

definition coexpression_network ::
  "(ndarray \<Rightarrow> ndarray) \<Rightarrow> expression_frame option \<Rightarrow> nat \<Rightarrow> ndarray" where
  "coexpression_network corrcoef expression_data num_genes =
     (let correlation_matrix =
            (case expression_data of
               None \<Rightarrow> np_identity num_genes
             | Some e \<Rightarrow> corrcoef (map snd e))
      in if list_ex np_isnan (concat correlation_matrix)
         then ew1 nan_to_num (fill_diagonal correlation_matrix (\<lambda>i. Fin 1))
         else correlation_matrix)"

text \<open>
  The branch \<^verbatim>\<open>if self.motif_data is None\<close> of \<^verbatim>\<open>processData\<close>: the correlation matrix
  is the result, as an edge list and as a frame labelled with the expression genes.
\<close>

definition no_motif_result ::
  "string list \<Rightarrow> string list \<Rightarrow> string list \<Rightarrow> ndarray \<Rightarrow> error + panda_obj" where
  "no_motif_result gene_names unique_tfs expression_genes correlation =
     (case pearson_results_data_frame gene_names correlation of
        Inl e \<Rightarrow> Inl e
      | Inr edges \<Rightarrow>
          (case pd_DataFrame correlation expression_genes expression_genes of
             Inl e \<Rightarrow> Inl e
           | Inr net \<Rightarrow>
               Inr \<lparr>self_motif_data = None, self_gene_names = gene_names,
                    self_unique_tfs = unique_tfs, self_expression_genes = expression_genes,
                    self_correlation_matrix = correlation,
                    self_motif_matrix_unnormalized = None, self_ppi_matrix = None,
                    self_export_panda_results = Some (PearsonEdges edges),
                    self_panda_network = Some net\<rparr>))"

text \<open>The rest of \<^verbatim>\<open>processData\<close> when there is a motif prior: the two prior matrices.\<close>

definition motif_result ::
  "string list \<Rightarrow> string list \<Rightarrow> string list \<Rightarrow> ndarray \<Rightarrow> triples \<Rightarrow> triples option
     \<Rightarrow> error + panda_obj" where
  "motif_result gene_names unique_tfs expression_genes correlation motif_data ppi_data =
     (case build_motif_matrix unique_tfs gene_names motif_data of
        Inl e \<Rightarrow> Inl e
      | Inr motif_matrix_unnormalized \<Rightarrow>
          (case build_ppi_matrix unique_tfs ppi_data of
             Inl e \<Rightarrow> Inl e
           | Inr ppi \<Rightarrow>
               Inr \<lparr>self_motif_data = Some motif_data, self_gene_names = gene_names,
                    self_unique_tfs = unique_tfs, self_expression_genes = expression_genes,
                    self_correlation_matrix = correlation,
                    self_motif_matrix_unnormalized = Some motif_matrix_unnormalized,
                    self_ppi_matrix = Some ppi,
                    self_export_panda_results = None,
                    self_panda_network = None\<rparr>))"

text \<open>The labels read from the tables while loading.\<close>

definition motif_tfs_of :: "panda_input \<Rightarrow> string list" where
  "motif_tfs_of inp = (case motif_file inp of None \<Rightarrow> [] | Some d \<Rightarrow> sorted_set (col0 d))"

definition motif_genes_of :: "panda_input \<Rightarrow> string list" where
  "motif_genes_of inp = (case motif_file inp of None \<Rightarrow> [] | Some d \<Rightarrow> sorted_set (col1 d))"

definition expression_genes_of :: "panda_input \<Rightarrow> string list" where
  "expression_genes_of inp =
     (case expression_file inp of None \<Rightarrow> motif_genes_of inp | Some e \<Rightarrow> map fst e)"

definition ppi_tfs_of :: "panda_input \<Rightarrow> string list" where
  "ppi_tfs_of inp =
     (case ppi_file inp of None \<Rightarrow> motif_tfs_of inp | Some p \<Rightarrow> sorted_set (col0 p @ col1 p))"

text \<open>\<^verbatim>\<open>processData\<close>\<close>

definition processData :: "(ndarray \<Rightarrow> ndarray) \<Rightarrow> panda_input \<Rightarrow> error + panda_obj" where
  "processData corrcoef inp =
     (let motif_tfs = motif_tfs_of inp;
          motif_genes = motif_genes_of inp;
          expression_genes = expression_genes_of inp;
          ppi_tfs = ppi_tfs_of inp;
          tables =
            (case motif_file inp of
               Some d \<Rightarrow>
                 if modeProcess inp = Legacy \<and> remove_missing inp
                 then (case remove_missing_tables d (expression_file inp) (ppi_file inp) motif_genes
                       of (d', e', p') \<Rightarrow> (Some d', e', p'))
                 else (Some d, expression_file inp, ppi_file inp)
             | None \<Rightarrow> (None, expression_file inp, ppi_file inp))
      in case tables of (motif_data, expression_data0, ppi_data) \<Rightarrow>
         case canonical_labels (modeProcess inp) (motif_file inp = None) (expression_file inp = None)
                motif_genes motif_tfs expression_genes ppi_tfs of
           Inl e \<Rightarrow> Inl e
         | Inr (gene_names, unique_tfs) \<Rightarrow>
     (let num_genes = length gene_names;
          expression_data =
            (case expression_data0 of
               Some e \<Rightarrow>
                 if (modeProcess inp = Union \<or> modeProcess inp = Intersection) \<and> num_genes \<noteq> 0
                 then Some (reindex_expression gene_names expression_genes e)
                 else Some e
             | None \<Rightarrow> None);
          correlation_matrix = coexpression_network corrcoef expression_data num_genes
      in case motif_data of
           None \<Rightarrow> no_motif_result gene_names unique_tfs expression_genes correlation_matrix
         | Some d \<Rightarrow>
             motif_result gene_names unique_tfs expression_genes correlation_matrix d ppi_data))"

text \<open>
  \<^verbatim>\<open>__init__\<close>: the data are processed; when that already produced the result (no motif
  prior) the constructor returns, otherwise the three networks are normalized and the
  loop runs. \<open>None\<close> is a constructor that never returns, \<open>Some (Inl e)\<close> one that raises
  \<open>e\<close>. Writing the temporary files and the conversion to single precision are not
  modelled.
\<close>

definition panda_init ::
  "(ndarray \<Rightarrow> ndarray) \<Rightarrow> panda_input \<Rightarrow> computing \<Rightarrow> bool \<Rightarrow> real \<Rightarrow> (error + panda_obj) option" where
  "panda_init corrcoef inp backend save_memory alpha =
     (case processData corrcoef inp of
        Inl e \<Rightarrow> Some (Inl e)
      | Inr obj \<Rightarrow>
          if self_export_panda_results obj \<noteq> None then Some (Inr obj)
          else
            (case (self_motif_matrix_unnormalized obj, self_ppi_matrix obj) of
               (Some mu, Some ppi) \<Rightarrow>
                 (let correlation = normalize_network (self_correlation_matrix obj);
                      motif = normalize_network mu;
                      ppi' = normalize_network ppi;
                      tfs = self_unique_tfs obj;
                      genes = self_gene_names obj
                  in if self_motif_data obj \<noteq> None then
                       (case panda_loop correlation motif ppi' backend alpha of
                          None \<Rightarrow> None
                        | Some (Inl e) \<Rightarrow> Some (Inl e)
                        | Some (Inr net) \<Rightarrow>
                            (case (if save_memory then Inr None
                                   else map_sum id (\<lambda>rows. Some (PandaEdges rows))
                                          (export_panda_results tfs genes mu net)) of
                               Inl e \<Rightarrow> Some (Inl e)
                             | Inr ex \<Rightarrow>
                                 (case pd_DataFrame net tfs genes of
                                    Inl e \<Rightarrow> Some (Inl e)
                                  | Inr df \<Rightarrow>
                                      Some (Inr (obj\<lparr>self_correlation_matrix := correlation,
                                                     self_ppi_matrix := Some ppi',
                                                     self_export_panda_results := ex,
                                                     self_panda_network := Some df\<rparr>)))))
                     else if save_memory then Some (Inl AttributeError)
                     else
                       (case pearson_results_data_frame genes correlation of
                          Inl e \<Rightarrow> Some (Inl e)
                        | Inr edges \<Rightarrow>
                            (case pd_DataFrame correlation genes genes of
                               Inl e \<Rightarrow> Some (Inl e)
                             | Inr df \<Rightarrow>
                                 Some (Inr (obj\<lparr>self_correlation_matrix := correlation,
                                                self_ppi_matrix := Some ppi',
                                                self_export_panda_results := Some (PearsonEdges edges),
                                                self_panda_network := Some df\<rparr>)))))
             | _ \<Rightarrow> Some (Inl AttributeError)))"

section \<open>Sequencing\<close>

lemma bind_err_Inr [simp]: "bind_err (Inr v) f = f v"
  by (simp add: bind_err_def)

lemma bind_err_Inl [simp]: "bind_err (Inl e) f = Inl e"
  by (simp add: bind_err_def)

lemma bind_err_eq_Inr:
  "bind_err m f = Inr y \<longleftrightarrow> (\<exists>v. m = Inr v \<and> f v = Inr y)"
  by (cases m) simp_all

section \<open>Properties of the edge list\<close>

lemma concat_equal_length:
  "\<forall>l\<in>set xss. length l = n \<Longrightarrow> length (concat xss) = length xss * n"
  by (induction xss) auto

lemma concat_equal_nth:
  "\<forall>l\<in>set xss. length l = n \<Longrightarrow> k < length xss \<Longrightarrow> i < n \<Longrightarrow>
     concat xss ! (k * n + i) = xss ! k ! i"
proof (induction xss arbitrary: k)
  case Nil
  then show ?case by simp
next
  case (Cons a xss)
  show ?case
  proof (cases k)
    case 0
    with Cons.prems show ?thesis by (simp add: nth_append)
  next
    case (Suc k')
    with Cons.prems have "concat xss ! (k' * n + i) = xss ! k' ! i"
      by (intro Cons.IH) auto
    moreover have "length a = n" using Cons.prems by simp
    ultimately show ?thesis using Suc by (simp add: nth_append)
  qed
qed

lemma length_np_tile: "length (np_tile xs n) = n * length xs"
  by (simp add: np_tile_def concat_equal_length[where n = "length xs"])

lemma nth_np_tile: "j < n \<Longrightarrow> i < length xs \<Longrightarrow> np_tile xs n ! (j * length xs + i) = xs ! i"
  unfolding np_tile_def
  by (subst concat_equal_nth[where n = "length xs"]) auto

lemma length_np_repeat: "length (np_repeat xs n) = length xs * n"
  by (simp add: np_repeat_def concat_equal_length[where n = n])

lemma nth_np_repeat: "j < length xs \<Longrightarrow> i < n \<Longrightarrow> np_repeat xs n ! (j * n + i) = xs ! j"
  unfolding np_repeat_def
  by (subst concat_equal_nth[where n = n]) auto

lemma shape1_is_matrix: "is_matrix m r c \<Longrightarrow> 0 < r \<Longrightarrow> shape1 m = c"
  by (cases m) (auto simp: is_matrix_def shape1_def)

lemma length_flatten_F: "is_matrix m r c \<Longrightarrow> length (flatten_F m) = c * r"
proof (cases "r = 0")
  case True
  assume "is_matrix m r c"
  with True have "m = []" by (simp add: is_matrix_def)
  with True show ?thesis by (simp add: flatten_F_def np_transpose_def shape1_def)
next
  case False
  assume m: "is_matrix m r c"
  with False have "shape1 m = c" by (simp add: shape1_is_matrix)
  moreover from m have "length m = r" by (simp add: is_matrix_def)
  ultimately show ?thesis
    by (simp add: flatten_F_def np_transpose_def concat_equal_length[where n = r])
qed

lemma nth_flatten_F:
  assumes "is_matrix m r c" "i < r" "j < c"
  shows "flatten_F m ! (j * r + i) = m ! i ! j"
proof -
  from assms have s: "shape1 m = c" by (simp add: shape1_is_matrix)
  from assms have l: "length m = r" by (simp add: is_matrix_def)
  have "concat (np_transpose m) ! (j * r + i) = np_transpose m ! j ! i"
    using assms s l by (intro concat_equal_nth) (auto simp: np_transpose_def)
  also have "\<dots> = m ! i ! j" using assms s l by (simp add: np_transpose_def)
  finally show ?thesis by (simp add: flatten_F_def)
qed

text \<open>
  Claim C9. The edge list has exactly one row for every (TF, gene) pair, carrying the
  pair's unnormalized motif-prior weight and its final force, with the TF index varying
  fastest: row \<open>j * T + i\<close> is the pair of TF \<open>i\<close> and gene \<open>j\<close> (column-major order of
  the TF-by-gene matrices).
\<close>

theorem export_column_major:
  assumes "is_matrix prior (length tfs) (length genes)"
    and "is_matrix final (length tfs) (length genes)"
  shows "\<exists>rows. export_panda_results tfs genes prior final = Inr rows
           \<and> length rows = length tfs * length genes
           \<and> (\<forall>j<length genes. \<forall>i<length tfs.
                 rows ! (j * length tfs + i) = (tfs ! i, genes ! j, prior ! i ! j, final ! i ! j))"
proof -
  let ?T = "length tfs" and ?G = "length genes"
  let ?rows = "zip (np_tile tfs ?G) (zip (np_repeat genes ?T) (zip (flatten_F prior) (flatten_F final)))"
  have lens: "length (np_tile tfs ?G) = ?G * ?T" "length (np_repeat genes ?T) = ?G * ?T"
    "length (flatten_F prior) = ?G * ?T" "length (flatten_F final) = ?G * ?T"
    using assms by (simp_all add: length_np_tile length_np_repeat length_flatten_F)
  have ex: "export_panda_results tfs genes prior final = Inr ?rows"
    by (simp add: export_panda_results_def Let_def lens)
  have len: "length ?rows = ?T * ?G" by (simp add: lens mult.commute)
  have nth: "?rows ! (j * ?T + i) = (tfs ! i, genes ! j, prior ! i ! j, final ! i ! j)"
    if "j < ?G" "i < ?T" for i j
  proof -
    have "j * ?T + i < ?G * ?T"
    proof -
      have "j * ?T + i < j * ?T + ?T" using that by simp
      also have "\<dots> = Suc j * ?T" by simp
      also have "\<dots> \<le> ?G * ?T" using that by (intro mult_le_mono1) simp
      finally show ?thesis .
    qed
    then show ?thesis
      using that assms
      by (simp add: lens nth_np_tile nth_np_repeat nth_flatten_F)
  qed
  from ex len nth show ?thesis by blast
qed

lemma upt3: "[0..<3] = [0, 1, 2]" by (simp add: upt_rec)

theorem export_column_major_witness:
  "is_matrix [[Fin 1, Fin 0, Fin 0], [Fin 0, Fin 1, Fin 1]] (length [''A'', ''B'']) (length [''g1'', ''g2'', ''g3''])
   \<and> is_matrix [[Fin 5, Fin 6, Fin 7], [Fin 8, Fin 9, Fin 10]] (length [''A'', ''B'']) (length [''g1'', ''g2'', ''g3''])
   \<and> (\<exists>rows. export_panda_results [''A'', ''B''] [''g1'', ''g2'', ''g3'']
                 [[Fin 1, Fin 0, Fin 0], [Fin 0, Fin 1, Fin 1]]
                 [[Fin 5, Fin 6, Fin 7], [Fin 8, Fin 9, Fin 10]] = Inr rows
          \<and> length rows = 6
          \<and> rows ! 2 = (''A'', ''g2'', Fin 0, Fin 6)
          \<and> rows ! 3 = (''B'', ''g2'', Fin 1, Fin 9))
   \<and> export_panda_results [''A'', ''B''] [''g1'', ''g2'', ''g3'']
        [[Fin 1, Fin 0, Fin 0], [Fin 0, Fin 1, Fin 1]] [[Fin 5, Fin 6, Fin 7], [Fin 8, Fin 9, Fin 10]]
      = Inr [(''A'', ''g1'', Fin 1, Fin 5), (''B'', ''g1'', Fin 0, Fin 8),
             (''A'', ''g2'', Fin 0, Fin 6), (''B'', ''g2'', Fin 1, Fin 9),
             (''A'', ''g3'', Fin 0, Fin 7), (''B'', ''g3'', Fin 1, Fin 10)]"
proof -
  let ?p = "[[Fin 1, Fin 0, Fin 0], [Fin 0, Fin 1, Fin 1]]"
  let ?f = "[[Fin 5, Fin 6, Fin 7], [Fin 8, Fin 9, Fin 10]]"
  let ?tfs = "[''A'', ''B'']" and ?genes = "[''g1'', ''g2'', ''g3'']"
  have m1: "is_matrix ?p (length ?tfs) (length ?genes)"
    by (simp add: is_matrix_def)
  have m2: "is_matrix ?f (length ?tfs) (length ?genes)"
    by (simp add: is_matrix_def)
  from export_column_major[OF m1 m2] obtain rows where
    r: "export_panda_results ?tfs ?genes ?p ?f = Inr rows"
    and l: "length rows = length ?tfs * length ?genes"
    and n: "\<forall>j<length ?genes. \<forall>i<length ?tfs.
                 rows ! (j * length ?tfs + i) = (?tfs ! i, ?genes ! j, ?p ! i ! j, ?f ! i ! j)"
    by blast
  have j1: "(1::nat) < length ?genes" and i0: "(0::nat) < length ?tfs" and i1: "(1::nat) < length ?tfs"
    by simp_all
  from n j1 i0 have "rows ! (1 * length ?tfs + 0) = (?tfs ! 0, ?genes ! 1, ?p ! 0 ! 1, ?f ! 0 ! 1)"
    by blast
  then have r2: "rows ! 2 = (''A'', ''g2'', Fin 0, Fin 6)" by (simp add: numeral_2_eq_2)
  from n j1 i1 have "rows ! (1 * length ?tfs + 1) = (?tfs ! 1, ?genes ! 1, ?p ! 1 ! 1, ?f ! 1 ! 1)"
    by blast
  then have r3: "rows ! 3 = (''B'', ''g2'', Fin 1, Fin 9)" by (simp add: numeral_3_eq_3)
  from l have l6: "length rows = 6" by simp
  have ev: "export_panda_results ?tfs ?genes ?p ?f
      = Inr [(''A'', ''g1'', Fin 1, Fin 5), (''B'', ''g1'', Fin 0, Fin 8),
             (''A'', ''g2'', Fin 0, Fin 6), (''B'', ''g2'', Fin 1, Fin 9),
             (''A'', ''g3'', Fin 0, Fin 7), (''B'', ''g3'', Fin 1, Fin 10)]"
    by (simp add: export_panda_results_def np_tile_def np_repeat_def flatten_F_def np_transpose_def
        shape1_def upt3 numeral_3_eq_3 numeral_2_eq_2)
  from r l6 r2 r3 have "\<exists>rows. export_panda_results ?tfs ?genes ?p ?f = Inr rows
          \<and> length rows = 6
          \<and> rows ! 2 = (''A'', ''g2'', Fin 0, Fin 6)
          \<and> rows ! 3 = (''B'', ''g2'', Fin 1, Fin 9)" by blast
  with m1 m2 ev show ?thesis by blast
qed

section \<open>Properties of the alignment\<close>

lemma sort_sort_remdups: "sort (sort (remdups xs)) = sorted_list_of_set (set xs)"
  by (simp add: sorted_list_of_set_sort_remdups sort_key_id_if_sorted)

lemma processData_labels:
  assumes "processData corrcoef inp = Inr obj"
  shows "canonical_labels (modeProcess inp) (motif_file inp = None) (expression_file inp = None)
           (motif_genes_of inp) (motif_tfs_of inp) (expression_genes_of inp) (ppi_tfs_of inp)
         = Inr (self_gene_names obj, self_unique_tfs obj)"
  using assms unfolding processData_def Let_def no_motif_result_def motif_result_def
  by (auto split: sum.splits prod.splits option.splits)

lemma set_sorted_set: "set (sorted_set xs) = set xs"
  by (simp add: sorted_set_def)

text \<open>
  Claim C5. In union mode the canonical gene sequence is the sorted, duplicate-free union
  of the motif-prior gene labels and the expression gene labels, and the canonical TF
  sequence the sorted, duplicate-free union of the PPI TF labels (both columns) and the
  motif TF labels.
\<close>

theorem union_labels_sorted_union:
  assumes "modeProcess inp = Union"
    and "processData corrcoef inp = Inr obj"
  shows "self_gene_names obj
           = sorted_list_of_set
               ((case motif_file inp of None \<Rightarrow> {} | Some d \<Rightarrow> set (col1 d))
                \<union> (case expression_file inp of None \<Rightarrow> {} | Some e \<Rightarrow> set (map fst e)))
       \<and> self_unique_tfs obj
           = sorted_list_of_set
               ((case ppi_file inp of None \<Rightarrow> {} | Some p \<Rightarrow> set (col0 p) \<union> set (col1 p))
                \<union> (case motif_file inp of None \<Rightarrow> {} | Some d \<Rightarrow> set (col0 d)))"
proof -
  let ?mg = "motif_genes_of inp" and ?mt = "motif_tfs_of inp"
  let ?eg = "expression_genes_of inp" and ?pt = "ppi_tfs_of inp"
  from processData_labels[OF assms(2)] assms(1)
  have "Inr (py_sorted (np_unique (?mg @ ?eg)), py_sorted (np_unique (?pt @ ?mt)))
          = (Inr (self_gene_names obj, self_unique_tfs obj) :: error + (string list \<times> string list))"
    by (simp add: canonical_labels_def)
  then have g: "self_gene_names obj = sorted_list_of_set (set (?mg @ ?eg))"
    and t: "self_unique_tfs obj = sorted_list_of_set (set (?pt @ ?mt))"
    by (simp_all add: py_sorted_def np_unique_def sort_sort_remdups)
  have sg: "set (?mg @ ?eg) = (case motif_file inp of None \<Rightarrow> {} | Some d \<Rightarrow> set (col1 d))
                \<union> (case expression_file inp of None \<Rightarrow> {} | Some e \<Rightarrow> set (map fst e))"
    by (auto simp: set_sorted_set motif_genes_of_def expression_genes_of_def split: option.splits)
  have st: "set (?pt @ ?mt) = (case ppi_file inp of None \<Rightarrow> {} | Some p \<Rightarrow> set (col0 p) \<union> set (col1 p))
                \<union> (case motif_file inp of None \<Rightarrow> {} | Some d \<Rightarrow> set (col0 d))"
    by (auto simp: set_sorted_set motif_tfs_of_def ppi_tfs_of_def split: option.splits)
  from g t show ?thesis unfolding sg st by simp
qed

theorem union_labels_sorted_union_witness:
  "modeProcess \<lparr>modeProcess = Union,
       motif_file = Some [(''TF2'', ''g3'', Fin 1), (''TF1'', ''g1'', Fin 1)],
       expression_file = Some [(''g2'', [Fin 1, Fin 2]), (''g1'', [Fin 3, Fin 4])],
       ppi_file = Some [(''TF3'', ''TF1'', Fin 1)],
       remove_missing = False\<rparr> = Union
   \<and> (\<exists>obj. processData (\<lambda>x. np_identity (length x))
        \<lparr>modeProcess = Union,
         motif_file = Some [(''TF2'', ''g3'', Fin 1), (''TF1'', ''g1'', Fin 1)],
         expression_file = Some [(''g2'', [Fin 1, Fin 2]), (''g1'', [Fin 3, Fin 4])],
         ppi_file = Some [(''TF3'', ''TF1'', Fin 1)],
         remove_missing = False\<rparr> = Inr obj
      \<and> self_gene_names obj = [''g1'', ''g2'', ''g3'']
      \<and> self_gene_names obj = sorted_list_of_set ({''g3'', ''g1''} \<union> {''g2'', ''g1''})
      \<and> self_unique_tfs obj = [''TF1'', ''TF2'', ''TF3'']
      \<and> self_unique_tfs obj = sorted_list_of_set (({''TF3''} \<union> {''TF1''}) \<union> {''TF2'', ''TF1''}))"
proof -
  let ?inp = "\<lparr>modeProcess = Union,
       motif_file = Some [(''TF2'', ''g3'', Fin 1), (''TF1'', ''g1'', Fin 1)],
       expression_file = Some [(''g2'', [Fin 1, Fin 2]), (''g1'', [Fin 3, Fin 4])],
       ppi_file = Some [(''TF3'', ''TF1'', Fin 1)],
       remove_missing = False\<rparr>"
  let ?obj = "\<lparr>self_motif_data = Some [(''TF2'', ''g3'', Fin 1), (''TF1'', ''g1'', Fin 1)],
        self_gene_names = [''g1'', ''g2'', ''g3''],
        self_unique_tfs = [''TF1'', ''TF2'', ''TF3''],
        self_expression_genes = [''g2'', ''g1''],
        self_correlation_matrix =
          [[Fin 1, Fin 0, Fin 0], [Fin 0, Fin 1, Fin 0], [Fin 0, Fin 0, Fin 1]],
        self_motif_matrix_unnormalized =
          Some [[Fin 1, Fin 0, Fin 0], [Fin 0, Fin 0, Fin 1], [Fin 0, Fin 0, Fin 0]],
        self_ppi_matrix =
          Some [[Fin 1, Fin 0, Fin 1], [Fin 0, Fin 1, Fin 0], [Fin 1, Fin 0, Fin 1]],
        self_export_panda_results = None, self_panda_network = None\<rparr>"
  have m: "modeProcess ?inp = Union" by simp
  have ev: "processData (\<lambda>x. np_identity (length x)) ?inp = Inr ?obj"
    by code_simp
  from union_labels_sorted_union[OF m ev]
  have "self_gene_names ?obj = sorted_list_of_set ({''g3'', ''g1''} \<union> {''g2'', ''g1''})"
    and "self_unique_tfs ?obj = sorted_list_of_set (({''TF3''} \<union> {''TF1''}) \<union> {''TF2'', ''TF1''})"
    by (simp_all add: col0_def col1_def)
  with m ev show ?thesis by (intro conjI exI[of _ ?obj]) simp_all
qed

section \<open>Properties of the constructor\<close>

lemma length_flatten_F_any: "length (flatten_F m) = shape1 m * length m"
  by (simp add: flatten_F_def np_transpose_def concat_equal_length[where n = "length m"])

lemma no_motif_result_mismatch:
  assumes "length gene_names * length gene_names \<noteq> length expression_genes * length expression_genes"
  shows "no_motif_result gene_names unique_tfs expression_genes m = Inl ValueError"
proof (cases "shape0 m = length expression_genes \<and> shape1 m = length expression_genes")
  case False
  then show ?thesis
    by (auto simp: no_motif_result_def pd_DataFrame_def pearson_results_data_frame_def Let_def
          split: sum.splits if_splits)
next
  case True
  then have "length (flatten_F m) = length expression_genes * length expression_genes"
    by (simp add: length_flatten_F_any shape0_def)
  with assms have "length (np_repeat gene_names (length gene_names)) \<noteq> length (flatten_F m)"
    by (simp add: length_np_repeat)
  then show ?thesis
    by (simp add: no_motif_result_def pearson_results_data_frame_def Let_def)
qed

lemma no_motif_result_Inr:
  assumes "no_motif_result gene_names unique_tfs expression_genes m = Inr obj"
  shows "self_export_panda_results obj \<noteq> None
       \<and> self_correlation_matrix obj = m
       \<and> self_panda_network obj
           = Some \<lparr>df_index = expression_genes, df_columns = expression_genes, df_values = m\<rparr>"
  using assms unfolding no_motif_result_def pd_DataFrame_def
  by (auto split: sum.splits if_splits)

lemma processData_no_motif:
  assumes "motif_file inp = None"
  shows "processData corrcoef inp = Inl AttributeError
       \<or> (\<exists>gene_names unique_tfs m.
             processData corrcoef inp
               = no_motif_result gene_names unique_tfs (expression_genes_of inp) m)"
  using assms unfolding processData_def Let_def
  by (auto simp: canonical_labels_def split: sum.splits prod.splits)

text \<open>
  Without a motif prior the constructor is the data processing alone, whatever the
  backend and the learning rate: the loop is not entered. A result is then the correlation
  matrix, labelled with the expression genes.
\<close>

lemma panda_init_no_motif:
  assumes "motif_file inp = None"
  shows "panda_init corrcoef inp backend save_memory alpha = Some (processData corrcoef inp)"
proof (cases "processData corrcoef inp")
  case (Inl e)
  then show ?thesis by (simp add: panda_init_def)
next
  case (Inr obj)
  with processData_no_motif[OF assms, of corrcoef] obtain gene_names unique_tfs m
    where "no_motif_result gene_names unique_tfs (expression_genes_of inp) m = Inr obj" by auto
  then have "self_export_panda_results obj \<noteq> None" by (simp add: no_motif_result_Inr)
  with Inr show ?thesis by (simp add: panda_init_def)
qed

lemma no_motif_network_is_correlation:
  assumes "motif_file inp = None"
    and "panda_init corrcoef inp backend save_memory alpha = Some (Inr obj)"
  shows "self_panda_network obj
           = Some \<lparr>df_index = expression_genes_of inp, df_columns = expression_genes_of inp,
                   df_values = self_correlation_matrix obj\<rparr>"
proof -
  from assms have p: "processData corrcoef inp = Inr obj" by (simp add: panda_init_no_motif)
  with processData_no_motif[OF assms(1), of corrcoef] obtain gene_names unique_tfs m
    where "no_motif_result gene_names unique_tfs (expression_genes_of inp) m = Inr obj" by auto
  then show ?thesis by (simp add: no_motif_result_Inr)
qed

lemma length_remdups_less:
  assumes "\<not> distinct xs"
  shows "length (remdups xs) < length xs"
proof -
  have "length (remdups xs) \<noteq> length xs"
  proof
    assume "length (remdups xs) = length xs"
    then have "remdups xs = xs" by (simp add: length_remdups_eq)
    then have "distinct xs" using distinct_remdups[of xs] by simp
    with assms show False by simp
  qed
  moreover have "length (remdups xs) \<le> length xs" by (rule length_remdups_leq)
  ultimately show ?thesis by linarith
qed

lemma processData_no_motif_duplicates:
  assumes "modeProcess inp = Union \<or> modeProcess inp = Intersection"
    and "motif_file inp = None"
    and "expression_file inp = Some e"
    and "\<not> distinct (map fst e)"
  shows "processData corrcoef inp = Inl ValueError"
proof -
  let ?eg = "map fst e"
  let ?gn = "py_sorted (np_unique ?eg)"
  have "length ?gn < length ?eg"
    using length_remdups_less[OF assms(4)] by (simp add: py_sorted_def np_unique_def)
  then have "length ?gn * length ?gn < length ?eg * length ?eg"
    by (intro mult_strict_mono) auto
  then have ne: "length ?gn * length ?gn \<noteq> length ?eg * length ?eg" by simp
  have eg: "expression_genes_of inp = ?eg" by (simp add: expression_genes_of_def assms(3))
  have mg: "motif_genes_of inp = []" by (simp add: motif_genes_of_def assms(2))
  show ?thesis
    using assms(1)
    by (auto simp: processData_def Let_def canonical_labels_def assms(2,3) eg mg
          no_motif_result_mismatch[OF ne])
qed

text \<open>
  Claim C7. The failing input (union mode, no motif prior, no PPI table, an expression table
  in which the gene label \<open>a\<close> occurs twice): whatever \<^verbatim>\<open>np.corrcoef\<close> returns, the
  constructor ends in \<^verbatim>\<open>ValueError\<close>, raised where the correlation matrix of the two
  canonical genes is labelled with the three expression labels.
\<close>

theorem no_motif_duplicate_genes_raises:
  "panda_init corrcoef
     \<lparr>modeProcess = Union, motif_file = None,
      expression_file = Some [(''a'', [Fin 1, Fin 2]), (''a'', [Fin 2, Fin 1]), (''b'', [Fin 0, Fin 5])],
      ppi_file = None, remove_missing = False\<rparr>
     backend save_memory alpha
   = Some (Inl ValueError)"
proof -
  let ?inp = "\<lparr>modeProcess = Union, motif_file = None,
      expression_file = Some [(''a'', [Fin 1, Fin 2]), (''a'', [Fin 2, Fin 1]), (''b'', [Fin 0, Fin 5])],
      ppi_file = None, remove_missing = False\<rparr>"
  have "processData corrcoef ?inp = Inl ValueError"
    by (rule processData_no_motif_duplicates
          [where e = "[(''a'', [Fin 1, Fin 2]), (''a'', [Fin 2, Fin 1]), (''b'', [Fin 0, Fin 5])]"])
       simp_all
  then show ?thesis by (simp add: panda_init_no_motif)
qed

section \<open>Properties of the similarity kernel\<close>

lemma np_sum_Fin: "np_sum (map Fin xs) = Fin (sum_list xs)"
  by (induction xs) simp_all

lemma np_sum_squares_Fin:
  "np_sum (map np_square (map Fin u)) = Fin (sum_list (map (\<lambda>a. a * a) u))"
proof -
  have "map np_square (map Fin u) = map Fin (map (\<lambda>a. a * a) u)"
    by (simp add: np_square_def)
  then show ?thesis by (simp only: np_sum_Fin)
qed

lemma np_sum_products_Fin:
  "np_sum (map2 np_mul (map Fin u) (map Fin v)) = Fin (sum_list (map2 (*) u v))"
proof -
  have "map2 np_mul (map Fin u) (map Fin v) = map Fin (map2 (*) u v)"
    by (auto simp: zip_map_map split_beta)
  then show ?thesis by (simp only: np_sum_Fin)
qed

lemma shape1_of_reals: "shape1 (of_reals X) = shape1 X"
  by (cases X) (simp_all add: shape1_def of_reals_def)

lemma is_matrix_row: "is_matrix X r c \<Longrightarrow> i < r \<Longrightarrow> length (X ! i) = c"
  by (simp add: is_matrix_def list_all_length)

lemma is_matrix_shape1: "is_matrix X r c \<Longrightarrow> 0 < r \<Longrightarrow> shape1 X = c"
  by (cases X) (auto simp: is_matrix_def shape1_def)

lemma np_transpose_of_reals:
  assumes "is_matrix X r c" and "0 < r"
  shows "np_transpose (of_reals X) = map (\<lambda>j. map Fin (column X j)) [0..<c]"
proof -
  have sh: "shape1 (of_reals X) = c"
    using is_matrix_shape1[OF assms] by (simp add: shape1_of_reals)
  have "map (\<lambda>row. row ! j) (of_reals X) = map Fin (column X j)" if "j < c" for j
    using assms that by (auto simp: is_matrix_def list_all_iff of_reals_def column_def)
  then have "map (\<lambda>j. map (\<lambda>row. row ! j) (of_reals X)) [0..<c]
               = map (\<lambda>j. map Fin (column X j)) [0..<c]"
    by (intro map_cong) auto
  then show ?thesis by (simp add: np_transpose_def sh)
qed

lemma column_transposed:
  assumes "is_matrix X r c" and "j < r"
  shows "map (\<lambda>row. row ! j) (map (\<lambda>k. map Fin (column X k)) [0..<c]) = map Fin (X ! j)"
proof (rule nth_equalityI)
  show "length (map (\<lambda>row. row ! j) (map (\<lambda>k. map Fin (column X k)) [0..<c])) = length (map Fin (X ! j))"
    using assms by (simp add: is_matrix_row)
next
  fix k assume "k < length (map (\<lambda>row. row ! j) (map (\<lambda>k. map Fin (column X k)) [0..<c]))"
  then have k: "k < c" by simp
  from assms have "length X = r" by (simp add: is_matrix_def)
  with k assms show "map (\<lambda>row. row ! j) (map (\<lambda>k. map Fin (column X k)) [0..<c]) ! k = map Fin (X ! j) ! k"
    by (simp add: column_def is_matrix_row[OF assms])
qed

text \<open>
  The product of an array with its transpose raises nothing; its entries are the dot
  products of two rows, on real numbers.
\<close>

lemma shape0_np_transpose: "shape0 (np_transpose x) = shape1 x"
  by (simp add: shape0_def np_transpose_def)

lemma np_dot_transpose:
  "np_dot x (np_transpose x)
     = Inr (map (\<lambda>row. map (\<lambda>col. np_sum (map2 np_mul row col)) (np_transpose (np_transpose x))) x)"
  by (simp add: np_dot_def shape0_np_transpose)

lemma np_dot_self_entry:
  assumes "is_matrix X r c" and "i < r" and "j < r" and "0 < c"
    and A: "np_dot (of_reals X) (np_transpose (of_reals X)) = Inr A"
  shows "A ! i ! j = Fin (sum_list (map2 (*) (X ! i) (X ! j)))"
proof -
  from assms have r: "0 < r" by simp
  from assms have lX: "length X = r" by (simp add: is_matrix_def)
  let ?T = "map (\<lambda>k. map Fin (column X k)) [0..<c]"
  have "?T \<noteq> []" using assms(4) by simp
  then have "shape1 ?T = length (hd ?T)" by (cases ?T) (simp_all add: shape1_def)
  also have "hd ?T = map Fin (column X 0)" using assms(4) by (simp add: hd_map upt_rec)
  finally have shT: "shape1 ?T = r" by (simp add: column_def lX)
  have tt: "np_transpose ?T = map (\<lambda>j. map (\<lambda>row. row ! j) ?T) [0..<r]"
    by (simp only: np_transpose_def shT)
  have "np_transpose (np_transpose (of_reals X)) = map (\<lambda>j. map (\<lambda>row. row ! j) ?T) [0..<r]"
    by (simp only: np_transpose_of_reals[OF assms(1) r] tt)
  then have "np_dot (of_reals X) (np_transpose (of_reals X))
          = Inr (map (\<lambda>row. map (\<lambda>col. np_sum (map2 np_mul row col))
                  (map (\<lambda>j. map (\<lambda>row. row ! j) ?T) [0..<r])) (of_reals X))"
    by (simp only: np_dot_transpose)
  with A have "A = map (\<lambda>row. map (\<lambda>col. np_sum (map2 np_mul row col))
                  (map (\<lambda>j. map (\<lambda>row. row ! j) ?T) [0..<r])) (of_reals X)"
    by simp
  then have "A ! i ! j
          = np_sum (map2 np_mul (map Fin (X ! i)) (map (\<lambda>row. row ! j) ?T))"
    using assms(2,3) lX by (simp add: of_reals_def)
  also have "\<dots> = np_sum (map2 np_mul (map Fin (X ! i)) (map Fin (X ! j)))"
    by (simp only: column_transposed[OF assms(1,3)])
  finally show ?thesis by (simp only: np_sum_products_Fin)
qed

lemma t_function_self_Inr: "\<exists>T. t_function x None = Inr T"
  by (simp add: t_function_def np_dot_transpose Let_def)

lemma t_function_self_entry:
  assumes "is_matrix X r c" and "i < r" and "j < r" and "0 < c"
    and T: "t_function (of_reals X) None = Inr T"
  shows "T ! i ! j
           = np_div (Fin (sum_list (map2 (*) (X ! i) (X ! j))))
               (np_sqrt (np_sub (np_add (Fin (sum_list (map (\<lambda>a. a * a) (X ! j))))
                                        (Fin (sum_list (map (\<lambda>a. a * a) (X ! i)))))
                                (np_abs (Fin (sum_list (map2 (*) (X ! i) (X ! j)))))))"
proof -
  from assms have lX: "length X = r" by (simp add: is_matrix_def)
  have s: "map (\<lambda>row. np_sum (map np_square row)) (of_reals X) ! k
             = Fin (sum_list (map (\<lambda>a. a * a) (X ! k)))" if "k < r" for k
    using that lX by (simp add: of_reals_def np_sum_squares_Fin del: map_map)
  have len: "length (of_reals X) = r" by (simp add: of_reals_def lX)
  have s': "np_sum (map np_square (of_reals X ! k))
             = Fin (sum_list (map (\<lambda>a. a * a) (X ! k)))" if "k < r" for k
    using that lX by (simp add: of_reals_def np_sum_squares_Fin del: map_map)
  obtain A where A: "np_dot (of_reals X) (np_transpose (of_reals X)) = Inr A"
    by (simp add: np_dot_transpose)
  from T show ?thesis
    using assms(2,3)
    by (auto simp add: t_function_def Let_def len A np_dot_self_entry[OF assms(1-4) A] s')
qed


text \<open>
  Claim C2, as the code has it. In self-similarity mode the coefficient of two identical
  rows of squared length \<open>s > 0\<close> is \<open>s / sqrt (s + s - |s|) = sqrt s\<close>, the Euclidean
  length of the row (1 only for a row of length 1); the coefficient of two orthogonal
  non-zero rows is 0.
\<close>

theorem t_function_identical_and_orthogonal:
  assumes "is_matrix X r c" and "i < r" and "j < r"
  shows "\<exists>T. t_function (of_reals X) None = Inr T
       \<and> (X ! i = X ! j \<and> 0 < sum_list (map (\<lambda>a. a * a) (X ! i)) \<longrightarrow>
            T ! i ! j = Fin (sqrt (sum_list (map (\<lambda>a. a * a) (X ! i)))))
       \<and> (sum_list (map2 (*) (X ! i) (X ! j)) = 0
            \<and> 0 < sum_list (map (\<lambda>a. a * a) (X ! i)) \<and> 0 < sum_list (map (\<lambda>a. a * a) (X ! j)) \<longrightarrow>
            T ! i ! j = Fin 0)"
proof -
  obtain T where T: "t_function (of_reals X) None = Inr T"
    using t_function_self_Inr by blast
  have "(X ! i = X ! j \<and> 0 < sum_list (map (\<lambda>a. a * a) (X ! i)) \<longrightarrow>
            T ! i ! j = Fin (sqrt (sum_list (map (\<lambda>a. a * a) (X ! i)))))
       \<and> (sum_list (map2 (*) (X ! i) (X ! j)) = 0
            \<and> 0 < sum_list (map (\<lambda>a. a * a) (X ! i)) \<and> 0 < sum_list (map (\<lambda>a. a * a) (X ! j)) \<longrightarrow>
            T ! i ! j = Fin 0)"
  proof (intro conjI impI)
  assume a: "X ! i = X ! j \<and> 0 < sum_list (map (\<lambda>a. a * a) (X ! i))"
  let ?s = "sum_list (map (\<lambda>a. a * a) (X ! i))"
  from a have pos: "0 < ?s" and eq: "X ! i = X ! j" by blast+
  have c: "0 < c"
  proof (rule ccontr)
    assume "\<not> 0 < c"
    with assms have "X ! i = []" using is_matrix_row[OF assms(1,2)] by simp
    with pos show False by simp
  qed
  have d: "sum_list (map2 (*) (X ! i) (X ! j)) = ?s"
    unfolding eq[symmetric] by (simp add: zip_same_conv_map comp_def)
  have sj: "sum_list (map (\<lambda>a. a * a) (X ! j)) = ?s"
    unfolding eq[symmetric] by simp
  have q: "?s / sqrt ?s = sqrt ?s" using pos by (simp add: real_div_sqrt)
  have nz: "sqrt ?s \<noteq> 0" using pos by simp
  have "T ! i ! j
          = np_div (Fin ?s) (np_sqrt (np_sub (np_add (Fin ?s) (Fin ?s)) (np_abs (Fin ?s))))"
    by (simp only: t_function_self_entry[OF assms c T] d sj)
  also have "\<dots> = Fin (sqrt ?s)"
    using pos q nz by (simp add: np_sub_def)
  finally show "T ! i ! j = Fin (sqrt ?s)" .
next
  assume a: "sum_list (map2 (*) (X ! i) (X ! j)) = 0
            \<and> 0 < sum_list (map (\<lambda>a. a * a) (X ! i)) \<and> 0 < sum_list (map (\<lambda>a. a * a) (X ! j))"
  let ?si = "sum_list (map (\<lambda>a. a * a) (X ! i))" and ?sj = "sum_list (map (\<lambda>a. a * a) (X ! j))"
  have c: "0 < c"
  proof (rule ccontr)
    assume "\<not> 0 < c"
    with assms have "X ! i = []" using is_matrix_row[OF assms(1,2)] by simp
    with a show False by simp
  qed
  from a have "0 < ?sj + ?si" by simp
  then have "sqrt (?sj + ?si) \<noteq> 0" by simp
  then show "T ! i ! j = Fin 0"
    using a by (simp add: t_function_self_entry[OF assms c T] np_sub_def)
  qed
  with T show ?thesis by blast
qed

lemma real_sqrt_4: "sqrt 4 = 2"
  using real_sqrt_abs[of 2] by simp

theorem t_function_identical_and_orthogonal_witness:
  "is_matrix ([[2, 0], [2, 0], [0, 3]] :: real list list) 3 2
   \<and> (\<exists>T. t_function (of_reals [[2, 0], [2, 0], [0, 3]]) None = Inr T
          \<and> T ! 0 ! 1 = Fin 2 \<and> T ! 0 ! 2 = Fin 0)"
proof -
  let ?X = "[[2, 0], [2, 0], [0, 3]] :: real list list"
  have m: "is_matrix ?X 3 2" by (simp add: is_matrix_def)
  from t_function_identical_and_orthogonal[OF m, of 0 1]
  obtain T where T: "t_function (of_reals ?X) None = Inr T" and "T ! 0 ! 1 = Fin (sqrt 4)"
    by auto
  then have a: "T ! 0 ! 1 = Fin 2" by (simp add: real_sqrt_4)
  from t_function_identical_and_orthogonal[OF m, of 0 2] T
  have b: "T ! 0 ! 2 = Fin 0" by auto
  from m T a b show ?thesis by blast
qed

text \<open>
  Claim C2 as stated fails: rows 0 and 1 of \<open>[[2], [2]]\<close> are identical and non-zero, and
  their coefficient is 2, not 1.
\<close>

theorem t_function_identical_not_one:
  "t_function [[Fin 2], [Fin 2]] None = Inr [[Fin 2, Fin 2], [Fin 2, Fin 2]] \<and> Fin 2 \<noteq> Fin 1"
proof -
  have "t_function [[Fin 2], [Fin 2]] None
          = Inr [[np_div (Fin 4) (np_sqrt (Fin 4)), np_div (Fin 4) (np_sqrt (Fin 4))],
                 [np_div (Fin 4) (np_sqrt (Fin 4)), np_div (Fin 4) (np_sqrt (Fin 4))]]"
    by (simp add: t_function_def np_dot_def np_transpose_def shape0_def shape1_def np_square_def
          np_sub_def upt_rec)
  then show ?thesis by (simp add: real_sqrt_4)
qed

section \<open>Properties of the normalizer\<close>

lemma np_mean_Fin: "xs \<noteq> [] \<Longrightarrow> np_mean (map Fin xs) = Fin (mean_r xs)"
  by (simp add: np_mean_def mean_r_def np_sum_Fin)

lemma deviations_Fin:
  "map (\<lambda>v. np_square (np_abs (np_sub v (Fin m)))) (map Fin xs)
     = map Fin (map (\<lambda>v. (v - m)\<^sup>2) xs)"
  by (simp add: np_square_def np_sub_def power2_eq_square)

lemma mean_r_squares_nonneg: "0 \<le> mean_r (map (\<lambda>v. (v - m)\<^sup>2) xs)"
  unfolding mean_r_def by (intro divide_nonneg_nonneg sum_list_nonneg) auto

lemma np_std_Fin: "xs \<noteq> [] \<Longrightarrow> np_std (map Fin xs) = Fin (std_r xs)"
proof -
  assume ne: "xs \<noteq> []"
  then have ne': "map (\<lambda>v. (v - mean_r xs)\<^sup>2) xs \<noteq> []" by simp
  have "np_std (map Fin xs)
          = np_sqrt (np_mean (map Fin (map (\<lambda>v. (v - mean_r xs)\<^sup>2) xs)))"
    by (simp only: np_std_def Let_def np_mean_Fin[OF ne] deviations_Fin)
  also have "\<dots> = np_sqrt (Fin (mean_r (map (\<lambda>v. (v - mean_r xs)\<^sup>2) xs)))"
    by (simp only: np_mean_Fin[OF ne'])
  also have "\<dots> = Fin (std_r xs)"
    using mean_r_squares_nonneg[of "mean_r xs" xs] by (simp add: std_r_def)
  finally show ?thesis .
qed

lemma std_r_zero:
  assumes "xs \<noteq> []" and "std_r xs = 0" and "v \<in> set xs"
  shows "v = mean_r xs"
proof -
  let ?sq = "map (\<lambda>v. (v - mean_r xs)\<^sup>2) xs"
  from assms(2) have "mean_r ?sq = 0"
    using mean_r_squares_nonneg[of "mean_r xs" xs] by (simp add: std_r_def)
  with assms(1) have "sum_list ?sq = 0" by (simp add: mean_r_def)
  moreover have "sum_list ?sq = 0 \<longleftrightarrow> (\<forall>q\<in>set ?sq. q = 0)"
    by (rule sum_list_nonneg_eq_0_iff) auto
  ultimately have z: "\<forall>q\<in>set ?sq. q = 0" by blast
  from assms(3) have "(v - mean_r xs)\<^sup>2 \<in> set ?sq" by (simp only: set_map) (rule imageI)
  with z have "(v - mean_r xs)\<^sup>2 = 0" by blast
  then show ?thesis by simp
qed

lemma zscore_1d_Fin:
  assumes "xs \<noteq> []"
  shows "zscore_1d (map Fin xs)
           = (if std_r xs = 0 then map (\<lambda>v. NaN) xs
              else map (\<lambda>v. Fin ((v - mean_r xs) / std_r xs)) xs)"
proof -
  have e: "np_div (np_sub (Fin v) (Fin (mean_r xs))) (Fin (std_r xs))
          = (if std_r xs = 0 then NaN else Fin ((v - mean_r xs) / std_r xs))"
    if "v \<in> set xs" for v
    using std_r_zero[OF assms _ that] by (auto simp: np_sub_def)
  have "map (\<lambda>v. np_div (np_sub v (Fin (mean_r xs))) (Fin (std_r xs))) (map Fin xs)
          = map (\<lambda>v. np_div (np_sub (Fin v) (Fin (mean_r xs))) (Fin (std_r xs))) xs"
    by (simp add: comp_def)
  also have "\<dots> = map (\<lambda>v. if std_r xs = 0 then NaN else Fin ((v - mean_r xs) / std_r xs)) xs"
    by (rule map_cong[OF refl]) (rule e)
  finally have "map (\<lambda>v. np_div (np_sub v (Fin (mean_r xs))) (Fin (std_r xs))) (map Fin xs)
          = map (\<lambda>v. if std_r xs = 0 then NaN else Fin ((v - mean_r xs) / std_r xs)) xs" .
  then have main: "zscore_1d (map Fin xs)
          = map (\<lambda>v. if std_r xs = 0 then NaN else Fin ((v - mean_r xs) / std_r xs)) xs"
    by (simp only: zscore_1d_def Let_def np_mean_Fin[OF assms] np_std_Fin[OF assms])
  show ?thesis
  proof (cases "std_r xs = 0")
    case True
    have "map (\<lambda>v. if std_r xs = 0 then NaN else Fin ((v - mean_r xs) / std_r xs)) xs
            = map (\<lambda>v. NaN) xs"
      by (rule map_cong[OF refl]) (simp add: True)
    with True show ?thesis by (simp add: main)
  next
    case False
    have "map (\<lambda>v. if std_r xs = 0 then NaN else Fin ((v - mean_r xs) / std_r xs)) xs
            = map (\<lambda>v. Fin ((v - mean_r xs) / std_r xs)) xs"
      by (rule map_cong[OF refl]) (simp add: False)
    with False show ?thesis by (simp add: main)
  qed
qed

lemma is_matrix_length: "is_matrix A r c \<Longrightarrow> length A = r"
  by (simp add: is_matrix_def)

lemma np_transpose_nth:
  assumes "is_matrix A r c" and "i < r" and "j < c"
  shows "np_transpose A ! j ! i = A ! i ! j"
proof -
  from assms have "shape1 A = c" by (intro is_matrix_shape1) auto
  with assms show ?thesis by (simp add: np_transpose_def is_matrix_length)
qed

lemma is_matrix_np_transpose:
  assumes "is_matrix A r c" and "0 < r"
  shows "is_matrix (np_transpose A) c r"
  using assms is_matrix_shape1[OF assms]
  by (simp add: np_transpose_def is_matrix_def list_all_iff)

lemma length_zscore_1d: "length (zscore_1d xs) = length xs"
  by (simp add: zscore_1d_def Let_def)

lemma is_matrix_of_reals: "is_matrix X r c \<Longrightarrow> is_matrix (of_reals X) r c"
  by (simp add: is_matrix_def of_reals_def list_all_iff)

lemma of_reals_nth: "is_matrix X r c \<Longrightarrow> i < r \<Longrightarrow> j < c \<Longrightarrow> of_reals X ! i ! j = Fin (X ! i ! j)"
  by (simp add: of_reals_def is_matrix_length is_matrix_row)

lemma is_matrix_map_zscore: "is_matrix A r c \<Longrightarrow> is_matrix (map zscore_1d A) r c"
  by (simp add: is_matrix_def list_all_iff length_zscore_1d)

lemma zscore_rows_entry:
  assumes "is_matrix X r c" and "i < r" and "j < c"
  shows "zscore (of_reals X) 1 ! i ! j
           = (if std_r (X ! i) = 0 then NaN else Fin (z_row X i j))"
proof -
  from assms have ne: "X ! i \<noteq> []" using is_matrix_row[OF assms(1,2)] by auto
  have "zscore (of_reals X) 1 ! i = zscore_1d (map Fin (X ! i))"
    using assms by (simp add: zscore_def of_reals_def is_matrix_length)
  then show ?thesis
    using assms is_matrix_row[OF assms(1,2)]
    by (simp add: zscore_1d_Fin[OF ne] z_row_def)
qed

lemma is_matrix_zscore_rows: "is_matrix X r c \<Longrightarrow> is_matrix (zscore (of_reals X) 1) r c"
  by (simp add: zscore_def is_matrix_map_zscore is_matrix_of_reals)

lemma is_matrix_zscore_columns:
  assumes "is_matrix X r c" and "0 < r" and "0 < c"
  shows "is_matrix (zscore (of_reals X) 0) r c"
proof -
  have "is_matrix (np_transpose (of_reals X)) c r"
    by (rule is_matrix_np_transpose[OF is_matrix_of_reals[OF assms(1)] assms(2)])
  then have "is_matrix (map zscore_1d (np_transpose (of_reals X))) c r"
    by (rule is_matrix_map_zscore)
  then have "is_matrix (np_transpose (map zscore_1d (np_transpose (of_reals X)))) r c"
    using assms(3) by (rule is_matrix_np_transpose)
  then show ?thesis by (simp add: zscore_def)
qed

lemma zscore_columns_entry:
  assumes "is_matrix X r c" and "i < r" and "j < c"
  shows "zscore (of_reals X) 0 ! i ! j
           = (if std_r (column X j) = 0 then NaN else Fin (z_col X i j))"
proof -
  from assms have r: "0 < r" and c: "0 < c" by auto
  from assms have lc: "length (column X j) = r" by (simp add: column_def is_matrix_length)
  with r have ne: "column X j \<noteq> []" by auto
  have ci: "column X j ! i = X ! i ! j"
    using assms by (simp add: column_def is_matrix_length)
  have T: "np_transpose (of_reals X) = map (\<lambda>j. map Fin (column X j)) [0..<c]"
    by (rule np_transpose_of_reals[OF assms(1) r])
  have Z: "is_matrix (map zscore_1d (np_transpose (of_reals X))) c r"
    by (intro is_matrix_map_zscore is_matrix_np_transpose is_matrix_of_reals assms(1) r)
  have "zscore (of_reals X) 0 ! i ! j = map zscore_1d (np_transpose (of_reals X)) ! j ! i"
    using np_transpose_nth[OF Z assms(3,2)] by (simp add: zscore_def)
  also have "\<dots> = zscore_1d (map Fin (column X j)) ! i"
    using assms(3) by (simp add: T)
  also have "\<dots> = (if std_r (column X j) = 0 then NaN else Fin (z_col X i j))"
    using assms(2) lc by (simp add: zscore_1d_Fin[OF ne] z_col_def ci)
  finally show ?thesis .
qed

lemma ew1_nth: "i < length A \<Longrightarrow> j < length (A ! i) \<Longrightarrow> ew1 f A ! i ! j = f (A ! i ! j)"
  by (simp add: ew1_def)

lemma ew2_nth:
  "is_matrix A r c \<Longrightarrow> is_matrix B r c \<Longrightarrow> i < r \<Longrightarrow> j < c \<Longrightarrow>
     ew2 f A B ! i ! j = f (A ! i ! j) (B ! i ! j)"
  by (simp add: ew2_def is_matrix_length is_matrix_row)

lemma is_matrix_ew1: "is_matrix A r c \<Longrightarrow> is_matrix (ew1 f A) r c"
  by (simp add: ew1_def is_matrix_def list_all_iff)

lemma is_matrix_ew2: "is_matrix A r c \<Longrightarrow> is_matrix B r c \<Longrightarrow> is_matrix (ew2 f A B) r c"
  by (auto simp: ew2_def is_matrix_def list_all_iff dest!: set_zip_leftD set_zip_rightD
        elim!: in_set_zipE)

lemma masked_assign_nth:
  "is_matrix A r c \<Longrightarrow> i < r \<Longrightarrow> j < c \<Longrightarrow>
     masked_assign A M B ! i ! j = (if M ! i ! j then B ! i ! j else A ! i ! j)"
  by (simp add: masked_assign_def is_matrix_length is_matrix_row)

lemma is_matrix_masked_assign: "is_matrix A r c \<Longrightarrow> is_matrix (masked_assign A M B) r c"
  by (auto simp: masked_assign_def is_matrix_def list_all_iff)

lemma isnan_mask_nth:
  "is_matrix A r c \<Longrightarrow> i < r \<Longrightarrow> j < c \<Longrightarrow> map (map np_isnan) A ! i ! j = np_isnan (A ! i ! j)"
  by (simp add: is_matrix_length is_matrix_row)

lemma mask_and_nth:
  "is_matrix P r c \<Longrightarrow> is_matrix Q r c \<Longrightarrow> i < r \<Longrightarrow> j < c \<Longrightarrow>
     mask_and P Q ! i ! j = (P ! i ! j \<and> Q ! i ! j)"
  by (simp add: mask_and_def is_matrix_length is_matrix_row)

lemma is_matrix_isnan_mask: "is_matrix A r c \<Longrightarrow> is_matrix (map (map np_isnan) A) r c"
  by (simp add: is_matrix_def list_all_iff)

lemma concat_of_reals: "concat (of_reals X) = map Fin (concat X)"
  by (simp add: of_reals_def map_concat)

text \<open>
  Entry \<open>(i, j)\<close> of the normalized matrix, from the entries of the column z-score, the row
  z-score and the whole-matrix z-score: the three masked assignments, read in order.
\<close>

lemma normalize_network_entry:
  fixes x :: ndarray
  defines "norm_col \<equiv> zscore x 0"
  defines "norm_row \<equiv> (if shape0 x = shape1 x then np_transpose (zscore x 0) else zscore x 1)"
  defines "norm_total \<equiv> ew1 (\<lambda>v. np_div (np_sub v (np_mean (concat x))) (np_std (concat x))) x"
  assumes x: "is_matrix x r c" and nc: "is_matrix norm_col r c" and nr: "is_matrix norm_row r c"
    and i: "i < r" and j: "j < c"
  shows "normalize_network x ! i ! j
           = (if np_isnan (norm_col ! i ! j) \<and> np_isnan (norm_row ! i ! j)
              then np_div (np_mul (Fin 2) (norm_total ! i ! j)) (Fin (sqrt 2))
              else if np_isnan (norm_row ! i ! j)
              then np_div (np_add (norm_col ! i ! j) (norm_total ! i ! j)) (Fin (sqrt 2))
              else if np_isnan (norm_col ! i ! j)
              then np_div (np_add (norm_row ! i ! j) (norm_total ! i ! j)) (Fin (sqrt 2))
              else np_div (np_add (norm_col ! i ! j) (norm_row ! i ! j)) (Fin (sqrt 2)))"
proof -
  let ?d = "\<lambda>v. np_div v (Fin (sqrt 2))"
  let ?nm0 = "ew1 ?d (ew2 np_add norm_col norm_row)"
  let ?nan_col = "map (map np_isnan) norm_col"
  let ?nan_row = "map (map np_isnan) norm_row"
  let ?b1 = "ew1 ?d (ew2 np_add norm_row norm_total)"
  let ?b2 = "ew1 ?d (ew2 np_add norm_col norm_total)"
  let ?b3 = "ew1 (\<lambda>v. np_div (np_mul (Fin 2) v) (Fin (sqrt 2))) norm_total"
  let ?nm1 = "masked_assign ?nm0 ?nan_col ?b1"
  let ?nm2 = "masked_assign ?nm1 ?nan_row ?b2"
  let ?nm3 = "masked_assign ?nm2 (mask_and ?nan_col ?nan_row) ?b3"
  have nt: "is_matrix norm_total r c" unfolding norm_total_def by (rule is_matrix_ew1[OF x])
  have def: "normalize_network x = ?nm3"
    unfolding normalize_network_def Let_def norm_col_def norm_row_def norm_total_def ..
  have m0: "is_matrix ?nm0 r c" by (intro is_matrix_ew1 is_matrix_ew2 nc nr)
  have m1: "is_matrix ?nm1 r c" by (rule is_matrix_masked_assign[OF m0])
  have m2: "is_matrix ?nm2 r c" by (rule is_matrix_masked_assign[OF m1])
  have li: "\<And>A. is_matrix A r c \<Longrightarrow> i < length A \<and> j < length (A ! i)"
    using i j by (simp add: is_matrix_length is_matrix_row)
  have e0: "?nm0 ! i ! j = ?d (np_add (norm_col ! i ! j) (norm_row ! i ! j))"
    using li[OF is_matrix_ew2[OF nc nr]] by (simp add: ew1_nth ew2_nth[OF nc nr i j])
  have e1: "?b1 ! i ! j = ?d (np_add (norm_row ! i ! j) (norm_total ! i ! j))"
    using li[OF is_matrix_ew2[OF nr nt]] by (simp add: ew1_nth ew2_nth[OF nr nt i j])
  have e2: "?b2 ! i ! j = ?d (np_add (norm_col ! i ! j) (norm_total ! i ! j))"
    using li[OF is_matrix_ew2[OF nc nt]] by (simp add: ew1_nth ew2_nth[OF nc nt i j])
  have e3: "?b3 ! i ! j = np_div (np_mul (Fin 2) (norm_total ! i ! j)) (Fin (sqrt 2))"
    using li[OF nt] by (simp add: ew1_nth)
  have k1: "?nan_col ! i ! j = np_isnan (norm_col ! i ! j)" by (rule isnan_mask_nth[OF nc i j])
  have k2: "?nan_row ! i ! j = np_isnan (norm_row ! i ! j)" by (rule isnan_mask_nth[OF nr i j])
  have k3: "mask_and ?nan_col ?nan_row ! i ! j
              = (np_isnan (norm_col ! i ! j) \<and> np_isnan (norm_row ! i ! j))"
    by (simp only: mask_and_nth[OF is_matrix_isnan_mask[OF nc] is_matrix_isnan_mask[OF nr] i j] k1 k2)
  have "?nm3 ! i ! j = (if np_isnan (norm_col ! i ! j) \<and> np_isnan (norm_row ! i ! j)
                         then ?b3 ! i ! j else ?nm2 ! i ! j)"
    by (simp only: masked_assign_nth[OF m2 i j] k3)
  also have "?nm2 ! i ! j = (if np_isnan (norm_row ! i ! j) then ?b2 ! i ! j else ?nm1 ! i ! j)"
    by (simp only: masked_assign_nth[OF m1 i j] k2)
  also have "?nm1 ! i ! j = (if np_isnan (norm_col ! i ! j) then ?b1 ! i ! j else ?nm0 ! i ! j)"
    by (simp only: masked_assign_nth[OF m0 i j] k1)
  finally show ?thesis by (simp only: def e0 e1 e2 e3)
qed

lemma shape0_of_reals: "is_matrix X r c \<Longrightarrow> shape0 (of_reals X) = r"
  by (simp add: shape0_def of_reals_def is_matrix_length)

lemma shape1_of_reals_matrix: "is_matrix X r c \<Longrightarrow> 0 < r \<Longrightarrow> shape1 (of_reals X) = c"
  by (simp add: shape1_of_reals is_matrix_shape1)

text \<open>The row z-score the code uses: the transposed column z-score on a square matrix.\<close>

lemma norm_row_entry:
  assumes X: "is_matrix X r c" and i: "i < r" and j: "j < c"
  shows "(if shape0 (of_reals X) = shape1 (of_reals X)
          then np_transpose (zscore (of_reals X) 0) else zscore (of_reals X) 1) ! i ! j
       = (if r = c then (if std_r (column X i) = 0 then NaN else Fin (z_col X j i))
          else (if std_r (X ! i) = 0 then NaN else Fin (z_row X i j)))"
proof -
  from i j have r: "0 < r" and c: "0 < c" by auto
  note sh = shape0_of_reals[OF X] shape1_of_reals_matrix[OF X r]
  show ?thesis
  proof (cases "r = c")
    case True
    have m: "is_matrix (zscore (of_reals X) 0) r c" by (rule is_matrix_zscore_columns[OF X r c])
    from True i j have j': "j < r" and i': "i < c" by auto
    have "np_transpose (zscore (of_reals X) 0) ! i ! j = zscore (of_reals X) 0 ! j ! i"
      by (rule np_transpose_nth[OF m j' i'])
    then show ?thesis
      using True by (simp add: sh zscore_columns_entry[OF X j' i'])
  next
    case False
    then show ?thesis using zscore_rows_entry[OF X i j] by (simp add: sh)
  qed
qed

lemma is_matrix_norm_row:
  assumes X: "is_matrix X r c" and r: "0 < r" and c: "0 < c"
  shows "is_matrix (if shape0 (of_reals X) = shape1 (of_reals X)
          then np_transpose (zscore (of_reals X) 0) else zscore (of_reals X) 1) r c"
proof (cases "r = c")
  case True
  have "is_matrix (np_transpose (zscore (of_reals X) 0)) c r"
    by (rule is_matrix_np_transpose[OF is_matrix_zscore_columns[OF X r c] r])
  with True show ?thesis
    by (simp add: shape0_of_reals[OF X] shape1_of_reals_matrix[OF X r])
next
  case False
  then show ?thesis
    using is_matrix_zscore_rows[OF X]
    by (simp add: shape0_of_reals[OF X] shape1_of_reals_matrix[OF X r])
qed

lemma norm_total_entry:
  assumes X: "is_matrix X r c" and i: "i < r" and j: "j < c"
  shows "ew1 (\<lambda>v. np_div (np_sub v (np_mean (concat (of_reals X)))) (np_std (concat (of_reals X))))
           (of_reals X) ! i ! j
         = np_div (Fin (X ! i ! j - mean_r (concat X))) (Fin (std_r (concat X)))"
proof -
  have "X ! i ! j \<in> set (concat X)"
    using assms by (auto simp: is_matrix_length is_matrix_row intro!: bexI[of _ "X ! i"])
  then have ne: "concat X \<noteq> []"
    by (rule length_greater_0_conv[THEN iffD1, OF length_pos_if_in_set])
  have "i < length (of_reals X) \<and> j < length (of_reals X ! i)"
    using assms is_matrix_of_reals[OF X] by (simp add: is_matrix_length is_matrix_row)
  then show ?thesis
    by (simp add: ew1_nth concat_of_reals np_mean_Fin[OF ne] np_std_Fin[OF ne]
          of_reals_nth[OF assms] np_sub_def)
qed

lemma normalize_of_reals_entry:
  fixes X :: "real list list"
  assumes X: "is_matrix X r c" and i: "i < r" and j: "j < c"
  defines "nc \<equiv> (if std_r (column X j) = 0 then NaN else Fin (z_col X i j))"
  defines "nr \<equiv> (if r = c then (if std_r (column X i) = 0 then NaN else Fin (z_col X j i))
                   else (if std_r (X ! i) = 0 then NaN else Fin (z_row X i j)))"
  defines "nt \<equiv> np_div (Fin (X ! i ! j - mean_r (concat X))) (Fin (std_r (concat X)))"
  shows "normalize_network (of_reals X) ! i ! j
           = (if np_isnan nc \<and> np_isnan nr then np_div (np_mul (Fin 2) nt) (Fin (sqrt 2))
              else if np_isnan nr then np_div (np_add nc nt) (Fin (sqrt 2))
              else if np_isnan nc then np_div (np_add nr nt) (Fin (sqrt 2))
              else np_div (np_add nc nr) (Fin (sqrt 2)))"
proof -
  from i j have r: "0 < r" and c: "0 < c" by auto
  show ?thesis
    unfolding nc_def nr_def nt_def
    by (simp only: normalize_network_entry[OF is_matrix_of_reals[OF X]
          is_matrix_zscore_columns[OF X r c] is_matrix_norm_row[OF X r c] i j]
          zscore_columns_entry[OF X i j] norm_row_entry[OF X i j] norm_total_entry[OF X i j])
qed

lemma is_matrix_normalize_network:
  assumes X: "is_matrix X r c" and r: "0 < r" and c: "0 < c"
  shows "is_matrix (normalize_network (of_reals X)) r c"
  unfolding normalize_network_def Let_def
  by (intro is_matrix_masked_assign is_matrix_ew1 is_matrix_ew2
        is_matrix_zscore_columns[OF X r c] is_matrix_norm_row[OF X r c])

text \<open>
  Claim C3. For a real matrix in which no row and no column has zero variance, every entry
  of the normalizer's output is (column z-score + row z-score) / sqrt 2, the row z-score
  being the transposed column z-score on a square matrix and computed on the row
  otherwise; the output has the shape of the input, and no fallback value is substituted:
  neither NaN mask (of the column z-score, of the row z-score) holds at any entry.
\<close>

theorem normalize_network_no_fallback:
  fixes X :: "real list list"
  assumes "is_matrix X r c"
    and "\<forall>j<c. std_r (column X j) \<noteq> 0"
    and "\<forall>i<r. std_r (X ! i) \<noteq> 0"
    and "i < r" and "j < c"
  shows "normalize_network (of_reals X) ! i ! j = Fin (spec_normalized X i j)
       \<and> is_matrix (normalize_network (of_reals X)) r c
       \<and> \<not> np_isnan (zscore (of_reals X) 0 ! i ! j)
       \<and> \<not> np_isnan ((if shape0 (of_reals X) = shape1 (of_reals X)
                       then np_transpose (zscore (of_reals X) 0)
                       else zscore (of_reals X) 1) ! i ! j)"
proof (intro conjI)
  from assms have r: "0 < r" and c: "0 < c" by auto
  show "is_matrix (normalize_network (of_reals X)) r c"
    by (rule is_matrix_normalize_network[OF assms(1) r c])
  show "\<not> np_isnan (zscore (of_reals X) 0 ! i ! j)"
    using assms(2,5) by (simp add: zscore_columns_entry[OF assms(1,4,5)])
  show "\<not> np_isnan ((if shape0 (of_reals X) = shape1 (of_reals X)
                       then np_transpose (zscore (of_reals X) 0)
                       else zscore (of_reals X) 1) ! i ! j)"
  proof (cases "r = c")
    case True
    with assms(4) have "i < c" by simp
    with assms(2) have "std_r (column X i) \<noteq> 0" by blast
    with True show ?thesis by (simp only: norm_row_entry[OF assms(1,4,5)]) simp
  next
    case False
    from assms(3,4) have "std_r (X ! i) \<noteq> 0" by blast
    with False show ?thesis by (simp only: norm_row_entry[OF assms(1,4,5)]) simp
  qed
  from assms(1) r have hd: "length (hd X) = c"
    by (cases X) (auto simp: is_matrix_def)
  have sq: "(length X = length (hd X)) = (r = c)"
    using assms(1) hd by (simp add: is_matrix_length)
  have cj: "std_r (column X j) \<noteq> 0" using assms(2,5) by blast
  have ri: "std_r (X ! i) \<noteq> 0" using assms(3,4) by blast
  show "normalize_network (of_reals X) ! i ! j = Fin (spec_normalized X i j)"
  proof (cases "r = c")
    case True
    with assms(4) have "i < c" by simp
    with assms(2) have ci: "std_r (column X i) \<noteq> 0" by blast
    show ?thesis
      using True cj ci
      by (simp add: normalize_of_reals_entry[OF assms(1,4,5)] spec_normalized_def sq)
  next
    case False
    show ?thesis
      using False cj ri
      by (simp add: normalize_of_reals_entry[OF assms(1,4,5)] spec_normalized_def sq)
  qed
qed


theorem normalize_network_no_fallback_witness:
  "is_matrix ([[1, 3], [3, 1]] :: real list list) 2 2
   \<and> std_r (column [[1, 3], [3, 1]] 0) \<noteq> 0 \<and> std_r (column [[1, 3], [3, 1]] 1) \<noteq> 0
   \<and> std_r [1, 3] \<noteq> 0 \<and> std_r [3, 1] \<noteq> 0
   \<and> normalize_network (of_reals [[1, 3], [3, 1]]) ! 0 ! 1 = Fin (2 / sqrt 2)
   \<and> is_matrix ([[1, 3, 5], [3, 1, 1]] :: real list list) 2 3
   \<and> std_r (column [[1, 3, 5], [3, 1, 1]] 0) \<noteq> 0
   \<and> std_r (column [[1, 3, 5], [3, 1, 1]] 1) \<noteq> 0
   \<and> std_r (column [[1, 3, 5], [3, 1, 1]] 2) \<noteq> 0
   \<and> std_r [1, 3, 5] \<noteq> 0 \<and> std_r [3, 1, 1] \<noteq> 0
   \<and> normalize_network (of_reals [[1, 3, 5], [3, 1, 1]]) ! 0 ! 0
        = Fin (((1 - 2) / 1 + (1 - 3) / sqrt (8 / 3)) / sqrt 2)"
proof -
  let ?X = "[[1, 3], [3, 1]] :: real list list"
  let ?Y = "[[1, 3, 5], [3, 1, 1]] :: real list list"
  have m: "is_matrix ?X 2 2" by (simp add: is_matrix_def)
  have c: "\<forall>j<2. std_r (column ?X j) \<noteq> 0"
    by (simp add: numeral_2_eq_2 All_less_Suc std_r_def mean_r_def column_def)
  have r: "\<forall>i<2. std_r (?X ! i) \<noteq> 0"
    by (simp add: numeral_2_eq_2 All_less_Suc std_r_def mean_r_def)
  have s: "spec_normalized ?X 0 1 = 2 / sqrt 2"
    by (simp add: spec_normalized_def z_col_def std_r_def mean_r_def column_def)
  from normalize_network_no_fallback[OF m c r, of 0 1] s
  have x: "normalize_network (of_reals ?X) ! 0 ! 1 = Fin (2 / sqrt 2)" by simp
  have m': "is_matrix ?Y 2 3" by (simp add: is_matrix_def)
  have c': "\<forall>j<3. std_r (column ?Y j) \<noteq> 0"
    by (simp add: numeral_3_eq_3 All_less_Suc std_r_def mean_r_def column_def)
  have r': "\<forall>i<2. std_r (?Y ! i) \<noteq> 0"
    by (simp add: numeral_2_eq_2 All_less_Suc std_r_def mean_r_def)
  have s': "spec_normalized ?Y 0 0 = ((1 - 2) / 1 + (1 - 3) / sqrt (8 / 3)) / sqrt 2"
    by (simp add: spec_normalized_def z_col_def z_row_def std_r_def mean_r_def column_def)
  from normalize_network_no_fallback[OF m' c' r', of 0 0] s'
  have y: "normalize_network (of_reals ?Y) ! 0 ! 0
        = Fin (((1 - 2) / 1 + (1 - 3) / sqrt (8 / 3)) / sqrt 2)" by simp
  from c have c2: "std_r (column ?X 0) \<noteq> 0" "std_r (column ?X 1) \<noteq> 0" by simp_all
  from r have r2: "std_r [1, 3] \<noteq> 0" "std_r [3, 1] \<noteq> 0"
    by (simp_all add: numeral_2_eq_2 All_less_Suc)
  from c' have c3: "std_r (column ?Y 0) \<noteq> 0" "std_r (column ?Y 1) \<noteq> 0"
    "std_r (column ?Y 2) \<noteq> 0" by simp_all
  from r' have r3: "std_r [1, 3, 5] \<noteq> 0" "std_r [3, 1, 1] \<noteq> 0"
    by (simp_all add: numeral_2_eq_2 All_less_Suc)
  from m c2 r2 x m' c3 r3 y show ?thesis by blast
qed



section \<open>Properties of the convergence loop\<close>

lemma np_le_not_gt: "np_le a b \<Longrightarrow> \<not> np_gt a b"
  by (cases a; cases b) auto

lemma not_np_gt_tolerance: "\<not> np_gt h tolerance \<longleftrightarrow> np_le h tolerance \<or> np_isnan h"
  by (cases h) (auto simp: tolerance_def)

lemma panda_while_stop:
  "\<not> np_gt (hamming s) tolerance \<Longrightarrow> panda_while b al nt ng s = Some (Inr s)"
  by (subst panda_while.simps) simp

lemma panda_while_raise:
  "np_gt (hamming s) tolerance \<Longrightarrow> panda_pass b al nt ng s = Inl e \<Longrightarrow>
   panda_while b al nt ng s = Some (Inl e)"
  by (subst panda_while.simps) simp

lemma panda_while_unfold:
  "np_gt (hamming s) tolerance \<Longrightarrow> panda_pass b al nt ng s = Inr s' \<Longrightarrow>
   panda_while b al nt ng s = panda_while b al nt ng s'"
  by (subst panda_while.simps) simp

text \<open>A loop that returns has run some number of passes, each entered with a metric above
  the tolerance and none raising, and the metric of the last state is not above it.\<close>

lemma panda_while_Inr_iter:
  assumes "panda_while b al nt ng s = Some r"
  shows "\<forall>t. r = Inr t \<longrightarrow>
           (\<exists>n. after_passes b al nt ng n s = Inr t \<and> \<not> np_gt (hamming t) tolerance
              \<and> (\<forall>k<n. \<exists>sk. after_passes b al nt ng k s = Inr sk \<and> np_gt (hamming sk) tolerance))"
proof (rule panda_while.raw_induct
    [where P = "\<lambda>b al nt ng s r. \<forall>t. r = Inr t \<longrightarrow>
           (\<exists>n. after_passes b al nt ng n s = Inr t \<and> \<not> np_gt (hamming t) tolerance
              \<and> (\<forall>k<n. \<exists>sk. after_passes b al nt ng k s = Inr sk \<and> np_gt (hamming sk) tolerance))",
     OF _ assms])
  fix f :: "computing \<Rightarrow> real \<Rightarrow> nat \<Rightarrow> nat \<Rightarrow> panda_state \<Rightarrow> (error + panda_state) option"
  fix b al nt ng s r
  assume IH: "\<And>b al nt ng s r. f b al nt ng s = Some r \<Longrightarrow>
      \<forall>t. r = Inr t \<longrightarrow>
           (\<exists>n. after_passes b al nt ng n s = Inr t \<and> \<not> np_gt (hamming t) tolerance
              \<and> (\<forall>k<n. \<exists>sk. after_passes b al nt ng k s = Inr sk \<and> np_gt (hamming sk) tolerance))"
  assume eq: "(if np_gt (hamming s) tolerance
      then (case panda_pass b al nt ng s of Inl e \<Rightarrow> Some (Inl e) | Inr s' \<Rightarrow> f b al nt ng s')
      else Some (Inr s)) = Some r"
  show "\<forall>t. r = Inr t \<longrightarrow>
           (\<exists>n. after_passes b al nt ng n s = Inr t \<and> \<not> np_gt (hamming t) tolerance
              \<and> (\<forall>k<n. \<exists>sk. after_passes b al nt ng k s = Inr sk \<and> np_gt (hamming sk) tolerance))"
  proof (intro allI impI)
    fix t assume r: "r = Inr t"
    show "\<exists>n. after_passes b al nt ng n s = Inr t \<and> \<not> np_gt (hamming t) tolerance
              \<and> (\<forall>k<n. \<exists>sk. after_passes b al nt ng k s = Inr sk \<and> np_gt (hamming sk) tolerance)"
    proof (cases "np_gt (hamming s) tolerance")
      case False
      with eq r have ts: "t = s" by simp
      have "after_passes b al nt ng 0 s = Inr t \<and> \<not> np_gt (hamming t) tolerance
          \<and> (\<forall>k<0. \<exists>sk. after_passes b al nt ng k s = Inr sk \<and> np_gt (hamming sk) tolerance)"
        using False ts by simp
      then show ?thesis by (rule exI)
    next
      case True
      show ?thesis
      proof (cases "panda_pass b al nt ng s")
        case (Inl e)
        with eq True r show ?thesis by simp
      next
        case (Inr s')
        with eq True have "f b al nt ng s' = Some r" by simp
        from IH[OF this] r obtain n where n1: "after_passes b al nt ng n s' = Inr t"
          and n2: "\<not> np_gt (hamming t) tolerance"
          and n3: "\<forall>k<n. \<exists>sk. after_passes b al nt ng k s' = Inr sk \<and> np_gt (hamming sk) tolerance"
          by blast
        have "\<exists>sk. after_passes b al nt ng k s = Inr sk \<and> np_gt (hamming sk) tolerance"
          if "k < Suc n" for k
        proof (cases k)
          case 0 then show ?thesis using True by simp
        next
          case (Suc j)
          with that have "j < n" by simp
          with n3 have "\<exists>sk. after_passes b al nt ng j s' = Inr sk \<and> np_gt (hamming sk) tolerance"
            by simp
          then show ?thesis using Suc Inr by simp
        qed
        then have "after_passes b al nt ng (Suc n) s = Inr t \<and> \<not> np_gt (hamming t) tolerance
          \<and> (\<forall>k<Suc n. \<exists>sk. after_passes b al nt ng k s = Inr sk \<and> np_gt (hamming sk) tolerance)"
          using n1 n2 Inr by simp
        then show ?thesis by (rule exI)
      qed
    qed
  qed
qed

text \<open>A loop ended by an exception has run some number of passes and the next one raised.\<close>

lemma panda_while_Inl_iter:
  assumes "panda_while b al nt ng s = Some r"
  shows "\<forall>e. r = Inl e \<longrightarrow>
           (\<exists>n sn. after_passes b al nt ng n s = Inr sn \<and> np_gt (hamming sn) tolerance
              \<and> panda_pass b al nt ng sn = Inl e
              \<and> (\<forall>k<n. \<exists>sk. after_passes b al nt ng k s = Inr sk \<and> np_gt (hamming sk) tolerance))"
proof (rule panda_while.raw_induct
    [where P = "\<lambda>b al nt ng s r. \<forall>e. r = Inl e \<longrightarrow>
           (\<exists>n sn. after_passes b al nt ng n s = Inr sn \<and> np_gt (hamming sn) tolerance
              \<and> panda_pass b al nt ng sn = Inl e
              \<and> (\<forall>k<n. \<exists>sk. after_passes b al nt ng k s = Inr sk \<and> np_gt (hamming sk) tolerance))",
     OF _ assms])
  fix f :: "computing \<Rightarrow> real \<Rightarrow> nat \<Rightarrow> nat \<Rightarrow> panda_state \<Rightarrow> (error + panda_state) option"
  fix b al nt ng s r
  assume IH: "\<And>b al nt ng s r. f b al nt ng s = Some r \<Longrightarrow>
      \<forall>e. r = Inl e \<longrightarrow>
           (\<exists>n sn. after_passes b al nt ng n s = Inr sn \<and> np_gt (hamming sn) tolerance
              \<and> panda_pass b al nt ng sn = Inl e
              \<and> (\<forall>k<n. \<exists>sk. after_passes b al nt ng k s = Inr sk \<and> np_gt (hamming sk) tolerance))"
  assume eq: "(if np_gt (hamming s) tolerance
      then (case panda_pass b al nt ng s of Inl e \<Rightarrow> Some (Inl e) | Inr s' \<Rightarrow> f b al nt ng s')
      else Some (Inr s)) = Some r"
  show "\<forall>e. r = Inl e \<longrightarrow>
           (\<exists>n sn. after_passes b al nt ng n s = Inr sn \<and> np_gt (hamming sn) tolerance
              \<and> panda_pass b al nt ng sn = Inl e
              \<and> (\<forall>k<n. \<exists>sk. after_passes b al nt ng k s = Inr sk \<and> np_gt (hamming sk) tolerance))"
  proof (intro allI impI)
    fix e assume r: "r = Inl e"
    from eq r have True: "np_gt (hamming s) tolerance" by (auto split: if_splits)
    show "\<exists>n sn. after_passes b al nt ng n s = Inr sn \<and> np_gt (hamming sn) tolerance
              \<and> panda_pass b al nt ng sn = Inl e
              \<and> (\<forall>k<n. \<exists>sk. after_passes b al nt ng k s = Inr sk \<and> np_gt (hamming sk) tolerance)"
    proof (cases "panda_pass b al nt ng s")
      case (Inl e')
      with eq True r have "e' = e" by simp
      with Inl True have "after_passes b al nt ng 0 s = Inr s \<and> np_gt (hamming s) tolerance
              \<and> panda_pass b al nt ng s = Inl e
              \<and> (\<forall>k<0. \<exists>sk. after_passes b al nt ng k s = Inr sk \<and> np_gt (hamming sk) tolerance)"
        by simp
      then show ?thesis by blast
    next
      case (Inr s')
      with eq True have "f b al nt ng s' = Some r" by simp
      from IH[OF this] r obtain n sn where n1: "after_passes b al nt ng n s' = Inr sn"
        and n2: "np_gt (hamming sn) tolerance" and n4: "panda_pass b al nt ng sn = Inl e"
        and n3: "\<forall>k<n. \<exists>sk. after_passes b al nt ng k s' = Inr sk \<and> np_gt (hamming sk) tolerance"
        by blast
      have "\<exists>sk. after_passes b al nt ng k s = Inr sk \<and> np_gt (hamming sk) tolerance"
        if "k < Suc n" for k
      proof (cases k)
        case 0 then show ?thesis using True by simp
      next
        case (Suc j)
        with that have "j < n" by simp
        with n3 have "\<exists>sk. after_passes b al nt ng j s' = Inr sk \<and> np_gt (hamming sk) tolerance"
          by simp
        then show ?thesis using Suc Inr by simp
      qed
      then have "after_passes b al nt ng (Suc n) s = Inr sn \<and> np_gt (hamming sn) tolerance
          \<and> panda_pass b al nt ng sn = Inl e
          \<and> (\<forall>k<Suc n. \<exists>sk. after_passes b al nt ng k s = Inr sk \<and> np_gt (hamming sk) tolerance)"
        using n1 n2 n4 Inr by simp
      then show ?thesis by blast
    qed
  qed
qed

text \<open>Conversely, a loop whose first \<open>n\<close> passes raise nothing ends if the metric after them
  is not above the tolerance, or if the next pass raises.\<close>

lemma panda_while_iter_Some:
  "after_passes b al nt ng n s = Inr t \<Longrightarrow> \<not> np_gt (hamming t) tolerance \<Longrightarrow>
   \<exists>r. panda_while b al nt ng s = Some r"
proof (induction n arbitrary: s)
  case 0
  then show ?case by (simp add: panda_while_stop)
next
  case (Suc n)
  show ?case
  proof (cases "np_gt (hamming s) tolerance")
    case False then show ?thesis by (simp add: panda_while_stop)
  next
    case True
    from Suc.prems(1) obtain s' where s': "panda_pass b al nt ng s = Inr s'"
      and "after_passes b al nt ng n s' = Inr t"
      by (auto split: sum.splits)
    from Suc.IH[OF this(2) Suc.prems(2)] show ?thesis
      using panda_while_unfold[OF True s'] by simp
  qed
qed

lemma panda_while_iter_Inl:
  "after_passes b al nt ng n s = Inl e \<Longrightarrow> \<exists>r. panda_while b al nt ng s = Some r"
proof (induction n arbitrary: s)
  case 0
  then show ?case by simp
next
  case (Suc n)
  show ?case
  proof (cases "np_gt (hamming s) tolerance")
    case False then show ?thesis by (simp add: panda_while_stop)
  next
    case True
    show ?thesis
    proof (cases "panda_pass b al nt ng s")
      case (Inl e')
      then show ?thesis using panda_while_raise[OF True Inl] by simp
    next
      case (Inr s')
      with Suc.prems have "after_passes b al nt ng n s' = Inl e" by simp
      from Suc.IH[OF this] show ?thesis using panda_while_unfold[OF True Inr] by simp
    qed
  qed
qed

text \<open>The loop runs forever exactly when no pass raises and the metric is above the
  tolerance after every number of passes.\<close>

lemma panda_while_None_iff:
  "panda_while b al nt ng s = None \<longleftrightarrow>
     (\<forall>n. \<exists>sn. after_passes b al nt ng n s = Inr sn \<and> np_gt (hamming sn) tolerance)"
proof
  assume none: "panda_while b al nt ng s = None"
  show "\<forall>n. \<exists>sn. after_passes b al nt ng n s = Inr sn \<and> np_gt (hamming sn) tolerance"
  proof
    fix n
    show "\<exists>sn. after_passes b al nt ng n s = Inr sn \<and> np_gt (hamming sn) tolerance"
    proof (cases "after_passes b al nt ng n s")
      case (Inl e)
      from panda_while_iter_Inl[OF this] none show ?thesis by simp
    next
      case (Inr sn)
      show ?thesis
      proof (cases "np_gt (hamming sn) tolerance")
        case True with Inr show ?thesis by simp
      next
        case False
        from panda_while_iter_Some[OF Inr False] none show ?thesis by simp
      qed
    qed
  qed
next
  assume all: "\<forall>n. \<exists>sn. after_passes b al nt ng n s = Inr sn \<and> np_gt (hamming sn) tolerance"
  show "panda_while b al nt ng s = None"
  proof (cases "panda_while b al nt ng s")
    case None then show ?thesis .
  next
    case (Some r)
    show ?thesis
    proof (cases r)
      case (Inr t)
      with panda_while_Inr_iter[OF Some] obtain n where "after_passes b al nt ng n s = Inr t"
        "\<not> np_gt (hamming t) tolerance" by blast
      with all[rule_format, of n] show ?thesis by simp
    next
      case (Inl e)
      with panda_while_Inl_iter[OF Some] obtain n sn
        where n: "after_passes b al nt ng n s = Inr sn" "panda_pass b al nt ng sn = Inl e" by blast
      have "after_passes b al nt ng (Suc n) s = Inl e" using n
      proof (induction n arbitrary: s)
        case 0 then show ?case by simp
      next
        case (Suc n)
        from Suc.prems(1) obtain s' where s': "panda_pass b al nt ng s = Inr s'"
          and "after_passes b al nt ng n s' = Inr sn"
          by (auto split: sum.splits)
        from Suc.IH[OF this(2) Suc.prems(2)] s' show ?case by simp
      qed
      with all[rule_format, of "Suc n"] show ?thesis by simp
    qed
  qed
qed

section \<open>Shapes in the loop\<close>

lemma is_matrix_shape0: "is_matrix x r c \<Longrightarrow> shape0 x = r"
  by (simp add: shape0_def is_matrix_def)

lemma is_matrixI:
  "length m = r \<Longrightarrow> (\<And>i. i < r \<Longrightarrow> length (m ! i) = c) \<Longrightarrow> is_matrix m r c"
  by (auto simp: is_matrix_def list_all_length)

lemma np_dot_matrix:
  assumes "is_matrix x r k" and "is_matrix y k c" and "0 < r" and "0 < k"
  shows "\<exists>a. np_dot x y = Inr a \<and> is_matrix a r c"
proof -
  have s: "shape1 x = shape0 y"
    using assms by (simp add: is_matrix_shape1 is_matrix_shape0)
  have c: "shape1 y = c" using assms by (simp add: is_matrix_shape1)
  let ?a = "map (\<lambda>r. map (\<lambda>c. np_sum (map2 np_mul r c)) (np_transpose y)) x"
  have "np_dot x y = Inr ?a" using s by (simp add: np_dot_def)
  moreover have "is_matrix ?a r c"
    using assms(1) c by (intro is_matrixI) (simp_all add: is_matrix_length np_transpose_def)
  ultimately show ?thesis by blast
qed

lemma t_function_matrix:
  assumes "is_matrix x r k" and "is_matrix y k c" and "0 < r" and "0 < k"
  shows "\<exists>T. t_function x (Some y) = Inr T \<and> is_matrix T r c"
proof -
  from np_dot_matrix[OF assms] obtain a where a: "np_dot x y = Inr a" by blast
  have c: "shape1 y = c" using assms by (simp add: is_matrix_shape1)
  let ?sy = "map (\<lambda>c. np_sum (map np_square c)) (np_transpose y)"
  let ?sx = "map (\<lambda>r. np_sum (map np_square r)) x"
  let ?T = "map (\<lambda>i. map (\<lambda>j.
                     np_div (a ! i ! j)
                       (np_sqrt (np_sub (np_add (?sy ! j) (?sx ! i)) (np_abs (a ! i ! j)))))
                   [0..<shape1 y]) [0..<length x]"
  have "t_function x (Some y) = Inr ?T" by (simp add: t_function_def a Let_def)
  moreover have "is_matrix ?T r c"
    using assms(1) c by (intro is_matrixI) (simp_all add: is_matrix_length)
  ultimately show ?thesis by blast
qed

lemma np_broadcast2_matrix:
  assumes a: "is_matrix a r c" and b: "is_matrix b r c" and r: "0 < r"
  shows "\<exists>m. np_broadcast2 f a b = Inr m \<and> is_matrix m r c
           \<and> (\<forall>i<r. \<forall>j<c. m ! i ! j = f (a ! i ! j) (b ! i ! j))"
proof -
  have sh: "shape0 a = r" "shape0 b = r" "shape1 a = c" "shape1 b = c"
    using assms by (simp_all add: is_matrix_shape0 is_matrix_shape1)
  let ?m = "map (\<lambda>i. map (\<lambda>j. f (bc_nth a i j) (bc_nth b i j)) [0..<c]) [0..<r]"
  have "np_broadcast2 f a b = Inr ?m"
    by (simp add: np_broadcast2_def broadcast_dim_def sh)
  moreover have "is_matrix ?m r c" by (intro is_matrixI) simp_all
  moreover have "?m ! i ! j = f (a ! i ! j) (b ! i ! j)" if "i < r" "j < c" for i j
  proof -
    have "bc_nth a i j = a ! i ! j" "bc_nth b i j = b ! i ! j"
      using that by (auto simp: bc_nth_def sh)
    with that show ?thesis by simp
  qed
  ultimately show ?thesis by blast
qed

lemma np_inplace2_matrix:
  assumes a: "is_matrix a r c" and b: "is_matrix b r c" and r: "0 < r"
  shows "\<exists>m. np_inplace2 f a b = Inr m \<and> is_matrix m r c
           \<and> (\<forall>i<r. \<forall>j<c. m ! i ! j = f (a ! i ! j) (b ! i ! j))"
proof -
  have sh: "shape0 a = r" "shape0 b = r" "shape1 a = c" "shape1 b = c"
    using assms by (simp_all add: is_matrix_shape0 is_matrix_shape1)
  have "np_inplace2 f a b = np_broadcast2 f a b"
    by (simp add: np_inplace2_def broadcast_dim_def sh)
  with np_broadcast2_matrix[OF assms] show ?thesis by simp
qed

lemma consensus_matrix:
  assumes "is_matrix (motif_matrix s) t g" and "is_matrix (ppi_matrix s) t t"
    and "is_matrix (correlation_matrix s) g g" and "0 < t" and "0 < g"
  shows "\<exists>W. consensus s = Inr W \<and> is_matrix W t g"
proof -
  from t_function_matrix[OF assms(2,1,4,4)] obtain R
    where R: "t_function (ppi_matrix s) (Some (motif_matrix s)) = Inr R" "is_matrix R t g" by blast
  from t_function_matrix[OF assms(1,3,4,5)] obtain A
    where A: "t_function (motif_matrix s) (Some (correlation_matrix s)) = Inr A" "is_matrix A t g"
    by blast
  from np_broadcast2_matrix[OF R(2) A(2) assms(4)] obtain S
    where S: "np_broadcast2 np_add R A = Inr S" "is_matrix S t g" by blast
  have "consensus s = Inr (ew1 (np_mul (Fin (1 / 2))) S)"
    by (simp add: consensus_def R(1) A(1) S(1))
  with is_matrix_ew1[OF S(2)] show ?thesis by blast
qed

lemma mean_abs_diff_matrix:
  assumes "is_matrix m r c" and "is_matrix w r c" and "0 < r"
  shows "\<exists>h. mean_abs_diff m w = Inr h"
proof -
  from np_broadcast2_matrix[OF assms] obtain d where "np_broadcast2 np_sub m w = Inr d" by blast
  then show ?thesis by (simp add: mean_abs_diff_def)
qed

text \<open>The blend, entry by entry: \<open>(1 - alpha) * a + alpha * b\<close>.\<close>

lemma blend_matrix:
  assumes a: "is_matrix a r c" and b: "is_matrix b r c" and r: "0 < r"
  shows "\<exists>m. blend alpha a b = Inr m \<and> is_matrix m r c
           \<and> (\<forall>i<r. \<forall>j<c. m ! i ! j
                 = np_add (np_mul (a ! i ! j) (Fin (1 - alpha))) (np_mul (Fin alpha) (b ! i ! j)))"
proof -
  let ?a = "ew1 (\<lambda>v. np_mul v (Fin (1 - alpha))) a" and ?b = "ew1 (np_mul (Fin alpha)) b"
  from np_inplace2_matrix[OF is_matrix_ew1[OF a] is_matrix_ew1[OF b] r, of np_add]
  obtain m where m: "np_inplace2 np_add ?a ?b = Inr m" "is_matrix m r c"
    "\<forall>i<r. \<forall>j<c. m ! i ! j = np_add (?a ! i ! j) (?b ! i ! j)" by blast
  have "m ! i ! j = np_add (np_mul (a ! i ! j) (Fin (1 - alpha))) (np_mul (Fin alpha) (b ! i ! j))"
    if "i < r" "j < c" for i j
  proof -
    have "?a ! i ! j = np_mul (a ! i ! j) (Fin (1 - alpha))"
      using that a by (simp add: ew1_nth is_matrix_length is_matrix_row)
    moreover have "?b ! i ! j = np_mul (Fin alpha) (b ! i ! j)"
      using that b by (simp add: ew1_nth is_matrix_length is_matrix_row)
    ultimately show ?thesis using m(3) that by simp
  qed
  with m(1,2) show ?thesis by (auto simp: blend_def)
qed

section \<open>The terminal pass\<close>

lemma array_pass_terminal:
  assumes "consensus s = Inr W" and "mean_abs_diff (motif_matrix s) W = Inr h"
    and "blend alpha (motif_matrix s) W = Inr m" and "\<not> np_gt h tolerance"
  shows "array_pass alpha nt ng s = Inr (s\<lparr>motif_matrix := m, hamming := h\<rparr>)"
  using assms by (simp add: array_pass_def Let_def)

lemma panda_pass_terminal:
  assumes "backend = Cpu \<or> backend = Gpu"
    and "consensus s = Inr W" and "mean_abs_diff (motif_matrix s) W = Inr h"
    and "blend alpha (motif_matrix s) W = Inr m" and "\<not> np_gt h tolerance"
  shows "panda_pass backend alpha nt ng s
           = Inr (s\<lparr>motif_matrix := m, hamming := h, step := step s + 1\<rparr>)"
  using assms(1) by (auto simp: panda_pass_def array_pass_terminal[OF assms(2-5)])

text \<open>
  Claim C1. In a state of the loop with a TFs-by-genes motif matrix \<open>M\<close>, a TFs-by-TFs PPI
  matrix and a genes-by-genes correlation matrix, the consensus update \<open>W\<close> and the metric
  \<open>h = mean |M - W|\<close> are computed without an exception; and on the terminal pass, the
  pass on which \<open>h \<le> 0.001\<close>, the PPI matrix and the correlation matrix stay as the
  previous pass left them, every entry of the motif matrix is still blended to
  \<open>M * (1 - alpha) + alpha * W\<close>, and the loop exits right after that pass.
\<close>

theorem terminal_pass_frame:
  assumes "backend = Cpu \<or> backend = Gpu"
    and "is_matrix (motif_matrix s) t g" and "is_matrix (ppi_matrix s) t t"
    and "is_matrix (correlation_matrix s) g g" and "0 < t" and "0 < g"
  shows "\<exists>W h. consensus s = Inr W \<and> is_matrix W t g
           \<and> mean_abs_diff (motif_matrix s) W = Inr h
           \<and> (np_le h tolerance \<longrightarrow>
                (\<exists>s'. panda_pass backend alpha nt ng s = Inr s'
                   \<and> ppi_matrix s' = ppi_matrix s
                   \<and> correlation_matrix s' = correlation_matrix s
                   \<and> is_matrix (motif_matrix s') t g
                   \<and> (\<forall>i<t. \<forall>j<g. motif_matrix s' ! i ! j
                         = np_add (np_mul (motif_matrix s ! i ! j) (Fin (1 - alpha)))
                                  (np_mul (Fin alpha) (W ! i ! j)))
                   \<and> hamming s' = h \<and> step s' = step s + 1
                   \<and> panda_while backend alpha nt ng s' = Some (Inr s')))"
proof -
  from consensus_matrix[OF assms(2-6)] obtain W
    where W: "consensus s = Inr W" "is_matrix W t g" by blast
  from mean_abs_diff_matrix[OF assms(2) W(2) assms(5)] obtain h
    where h: "mean_abs_diff (motif_matrix s) W = Inr h" by blast
  from blend_matrix[OF assms(2) W(2) assms(5), of alpha] obtain m
    where m: "blend alpha (motif_matrix s) W = Inr m" "is_matrix m t g"
      "\<forall>i<t. \<forall>j<g. m ! i ! j
          = np_add (np_mul (motif_matrix s ! i ! j) (Fin (1 - alpha))) (np_mul (Fin alpha) (W ! i ! j))"
    by blast
  have "\<exists>s'. panda_pass backend alpha nt ng s = Inr s'
                   \<and> ppi_matrix s' = ppi_matrix s
                   \<and> correlation_matrix s' = correlation_matrix s
                   \<and> is_matrix (motif_matrix s') t g
                   \<and> (\<forall>i<t. \<forall>j<g. motif_matrix s' ! i ! j
                         = np_add (np_mul (motif_matrix s ! i ! j) (Fin (1 - alpha)))
                                  (np_mul (Fin alpha) (W ! i ! j)))
                   \<and> hamming s' = h \<and> step s' = step s + 1
                   \<and> panda_while backend alpha nt ng s' = Some (Inr s')"
    if le: "np_le h tolerance"
  proof -
    from le have ng: "\<not> np_gt h tolerance" by (rule np_le_not_gt)
    let ?s' = "s\<lparr>motif_matrix := m, hamming := h, step := step s + 1\<rparr>"
    have p: "panda_pass backend alpha nt ng s = Inr ?s'"
      by (rule panda_pass_terminal[OF assms(1) W(1) h m(1) ng])
    have "panda_while backend alpha nt ng ?s' = Some (Inr ?s')"
      using ng by (simp add: panda_while_stop)
    with p m(2,3) show ?thesis by simp
  qed
  with W h show ?thesis by blast
qed

lemmas arr_defs = t_function_def np_dot_def np_transpose_def shape0_def shape1_def ew1_def
  np_broadcast2_def np_inplace2_def broadcast_dim_def bc_nth_def
  np_mean_def np_sub_def np_square_def consensus_def mean_abs_diff_def blend_def tolerance_def

lemma upt2: "[0..<2] = [0, 1]" by (simp add: upt_rec)

lemma sqrt_4000000: "sqrt 4000000 = 2000"
  by (rule real_sqrt_unique) simp_all

lemma sqrt_frac_4000000: "sqrt (1 / 4000000) = 1 / 2000"
  by (rule real_sqrt_unique) (simp_all add: power2_eq_square)

theorem terminal_pass_frame_witness:
  "consensus \<lparr>motif_matrix = [[Fin (1/2000), Fin 0], [Fin 0, Fin (1/2000)]],
              ppi_matrix = [[Fin 0, Fin 0], [Fin 0, Fin 0]],
              correlation_matrix = [[Fin 0, Fin (1/2000)], [Fin (1/2000), Fin 0]],
              step = 3, hamming = Fin 1\<rparr>
     = Inr [[Fin 0, Fin (1/4000)], [Fin (1/4000), Fin 0]]
   \<and> mean_abs_diff [[Fin (1/2000), Fin 0], [Fin 0, Fin (1/2000)]]
        [[Fin 0, Fin (1/4000)], [Fin (1/4000), Fin 0]] = Inr (Fin (3/8000))
   \<and> np_le (Fin (3/8000)) tolerance
   \<and> panda_pass Cpu (1/10) 2 2
        \<lparr>motif_matrix = [[Fin (1/2000), Fin 0], [Fin 0, Fin (1/2000)]],
         ppi_matrix = [[Fin 0, Fin 0], [Fin 0, Fin 0]],
         correlation_matrix = [[Fin 0, Fin (1/2000)], [Fin (1/2000), Fin 0]],
         step = 3, hamming = Fin 1\<rparr>
      = Inr \<lparr>motif_matrix = [[Fin (9/20000), Fin (1/40000)], [Fin (1/40000), Fin (9/20000)]],
             ppi_matrix = [[Fin 0, Fin 0], [Fin 0, Fin 0]],
             correlation_matrix = [[Fin 0, Fin (1/2000)], [Fin (1/2000), Fin 0]],
             step = 4, hamming = Fin (3/8000)\<rparr>
   \<and> panda_while Cpu (1/10) 2 2
        \<lparr>motif_matrix = [[Fin (9/20000), Fin (1/40000)], [Fin (1/40000), Fin (9/20000)]],
         ppi_matrix = [[Fin 0, Fin 0], [Fin 0, Fin 0]],
         correlation_matrix = [[Fin 0, Fin (1/2000)], [Fin (1/2000), Fin 0]],
         step = 4, hamming = Fin (3/8000)\<rparr>
      = Some (Inr \<lparr>motif_matrix = [[Fin (9/20000), Fin (1/40000)], [Fin (1/40000), Fin (9/20000)]],
             ppi_matrix = [[Fin 0, Fin 0], [Fin 0, Fin 0]],
             correlation_matrix = [[Fin 0, Fin (1/2000)], [Fin (1/2000), Fin 0]],
             step = 4, hamming = Fin (3/8000)\<rparr>)"
proof -
  let ?M = "[[Fin (1/2000), Fin 0], [Fin 0, Fin (1/2000)]]"
  let ?P = "[[Fin 0, Fin 0], [Fin 0, Fin 0]]"
  let ?C = "[[Fin 0, Fin (1/2000)], [Fin (1/2000), Fin 0]]"
  let ?W = "[[Fin 0, Fin (1/4000)], [Fin (1/4000), Fin 0]]"
  let ?M' = "[[Fin (9/20000), Fin (1/40000)], [Fin (1/40000), Fin (9/20000)]]"
  let ?s = "\<lparr>motif_matrix = ?M, ppi_matrix = ?P, correlation_matrix = ?C,
             step = 3, hamming = Fin 1\<rparr>"
  let ?s' = "\<lparr>motif_matrix = ?M', ppi_matrix = ?P, correlation_matrix = ?C,
             step = 4, hamming = Fin (3/8000)\<rparr>"
  have c: "consensus ?s = Inr ?W"
    by (simp add: arr_defs upt2 sqrt_frac_4000000)
  have h: "mean_abs_diff ?M ?W = Inr (Fin (3/8000))"
    by (simp add: arr_defs upt2)
  have le: "np_le (Fin (3/8000)) tolerance"
    by (simp add: tolerance_def)
  have b: "blend (1/10) ?M ?W = Inr ?M'"
    by (simp add: arr_defs upt2)
  have p: "panda_pass Cpu (1/10) 2 2 ?s = Inr ?s'"
    using panda_pass_terminal[of Cpu ?s ?W "Fin (3/8000)" "1/10" ?M' 2 2] c h b le
    by (simp add: np_le_not_gt)
  have sh: "is_matrix (motif_matrix ?s) 2 2" "is_matrix (ppi_matrix ?s) 2 2"
    "is_matrix (correlation_matrix ?s) 2 2"
    by (simp_all add: is_matrix_def)
  from terminal_pass_frame[of Cpu ?s 2 2 "1/10" 2 2, OF _ sh] c h le p
  have "panda_while Cpu (1/10) 2 2 ?s' = Some (Inr ?s')"
    by auto
  with c h le p show ?thesis by simp
qed

section \<open>The first pass\<close>

lemma hamming_initial: "np_gt (hamming (initial_state C M P)) tolerance"
  by (simp add: initial_state_def tolerance_def)

lemma panda_loop_first_pass:
  "panda_loop C M P backend alpha
     = (case panda_pass backend alpha (shape0 M) (shape1 M) (initial_state C M P) of
          Inl e \<Rightarrow> Some (Inl e)
        | Inr s1 \<Rightarrow> map_option (map_sum id motif_matrix)
                      (panda_while backend alpha (shape0 M) (shape1 M) s1))"
proof (cases "panda_pass backend alpha (shape0 M) (shape1 M) (initial_state C M P)")
  case (Inl e)
  then show ?thesis
    by (simp add: panda_loop_def panda_while_raise[OF hamming_initial Inl])
next
  case (Inr s1)
  then show ?thesis
    by (simp add: panda_loop_def panda_while_unfold[OF hamming_initial Inr])
qed

text \<open>
  Claim C10, as the code has it. The metric starts at 1, so for every input the body runs
  at least once: the call is the first pass followed by the rest of the loop, and a
  returned motif matrix is the motif matrix after at least one pass. For a TFs-by-genes
  motif matrix \<open>M0\<close> with a TFs-by-TFs PPI matrix and a genes-by-genes correlation matrix,
  the consensus update \<open>W0\<close> and the metric are computed without an exception, and when
  \<open>mean |M0 - W0| \<le> 0.001\<close> the call returns the matrix with the entries
  \<open>M0 * (1 - alpha) + alpha * W0\<close> (which is \<open>M0\<close> again when \<open>W0 = M0\<close> or \<open>alpha = 0\<close>).
\<close>

theorem first_pass_always_runs:
  fixes C M P :: ndarray and backend :: computing and alpha :: real and t g :: nat
  defines "s0 \<equiv> initial_state C M P"
  defines "nt \<equiv> shape0 M" and "ng \<equiv> shape1 M"
  shows "panda_loop C M P backend alpha
           = (case panda_pass backend alpha nt ng s0 of
                Inl e \<Rightarrow> Some (Inl e)
              | Inr s1 \<Rightarrow> map_option (map_sum id motif_matrix)
                            (panda_while backend alpha nt ng s1))
       \<and> (\<forall>m. panda_loop C M P backend alpha = Some (Inr m) \<longrightarrow>
              (\<exists>n s'. after_passes backend alpha nt ng (Suc n) s0 = Inr s' \<and> m = motif_matrix s'))
       \<and> ((backend = Cpu \<or> backend = Gpu) \<and> is_matrix M t g \<and> is_matrix P t t
            \<and> is_matrix C g g \<and> 0 < t \<and> 0 < g \<longrightarrow>
            (\<exists>W h. consensus s0 = Inr W \<and> is_matrix W t g \<and> mean_abs_diff M W = Inr h
               \<and> (np_le h tolerance \<longrightarrow>
                    (\<exists>R. panda_loop C M P backend alpha = Some (Inr R) \<and> is_matrix R t g
                       \<and> (\<forall>i<t. \<forall>j<g. R ! i ! j
                             = np_add (np_mul (M ! i ! j) (Fin (1 - alpha)))
                                      (np_mul (Fin alpha) (W ! i ! j)))))))"
proof (intro conjI allI impI)
  show "panda_loop C M P backend alpha
           = (case panda_pass backend alpha nt ng s0 of
                Inl e \<Rightarrow> Some (Inl e)
              | Inr s1 \<Rightarrow> map_option (map_sum id motif_matrix)
                            (panda_while backend alpha nt ng s1))"
    unfolding s0_def nt_def ng_def by (rule panda_loop_first_pass)
next
  fix m assume "panda_loop C M P backend alpha = Some (Inr m)"
  then obtain r where r: "panda_while backend alpha nt ng s0 = Some r"
    and mr: "map_sum id motif_matrix r = Inr m"
    by (auto simp: panda_loop_def s0_def nt_def ng_def)
  from mr obtain u where u: "r = Inr u" and m: "m = motif_matrix u"
    by (cases r) auto
  from panda_while_Inr_iter[OF r] u obtain n
    where n: "after_passes backend alpha nt ng n s0 = Inr u"
      "\<not> np_gt (hamming u) tolerance" by blast
  have "n \<noteq> 0"
  proof
    assume "n = 0"
    with n have "\<not> np_gt (hamming s0) tolerance" by simp
    then show False using hamming_initial by (simp add: s0_def)
  qed
  then obtain k where "n = Suc k" by (cases n) auto
  with n(1) m have "after_passes backend alpha nt ng (Suc k) s0 = Inr u \<and> m = motif_matrix u"
    by simp
  then show "\<exists>n s'. after_passes backend alpha nt ng (Suc n) s0 = Inr s' \<and> m = motif_matrix s'"
    by blast
next
  assume a: "(backend = Cpu \<or> backend = Gpu) \<and> is_matrix M t g \<and> is_matrix P t t
            \<and> is_matrix C g g \<and> 0 < t \<and> 0 < g"
  have ms: "motif_matrix s0 = M" "ppi_matrix s0 = P" "correlation_matrix s0 = C"
    by (simp_all add: s0_def initial_state_def)
  from a have b: "backend = Cpu \<or> backend = Gpu" and M: "is_matrix (motif_matrix s0) t g"
    and P: "is_matrix (ppi_matrix s0) t t" and C: "is_matrix (correlation_matrix s0) g g"
    and t: "0 < t" and g: "0 < g"
    by (simp_all add: ms)
  from consensus_matrix[OF M P C t g] obtain W
    where W: "consensus s0 = Inr W" "is_matrix W t g" by blast
  from mean_abs_diff_matrix[OF M W(2) t] obtain h
    where h: "mean_abs_diff (motif_matrix s0) W = Inr h" by blast
  from blend_matrix[OF M W(2) t, of alpha] obtain R
    where R: "blend alpha (motif_matrix s0) W = Inr R" "is_matrix R t g"
      "\<forall>i<t. \<forall>j<g. R ! i ! j
          = np_add (np_mul (motif_matrix s0 ! i ! j) (Fin (1 - alpha))) (np_mul (Fin alpha) (W ! i ! j))"
    by blast
  have "\<exists>R. panda_loop C M P backend alpha = Some (Inr R) \<and> is_matrix R t g
                       \<and> (\<forall>i<t. \<forall>j<g. R ! i ! j
                             = np_add (np_mul (M ! i ! j) (Fin (1 - alpha)))
                                      (np_mul (Fin alpha) (W ! i ! j)))"
    if le: "np_le h tolerance"
  proof -
    from le have ng: "\<not> np_gt h tolerance" by (rule np_le_not_gt)
    let ?s' = "s0\<lparr>motif_matrix := R, hamming := h, step := step s0 + 1\<rparr>"
    have p: "panda_pass backend alpha nt ng s0 = Inr ?s'"
      by (rule panda_pass_terminal[OF b W(1) h R(1) ng])
    have "panda_while backend alpha nt ng ?s' = Some (Inr ?s')"
      using ng by (simp add: panda_while_stop)
    with p have "panda_loop C M P backend alpha = Some (Inr R)"
      using panda_loop_first_pass[of C M P backend alpha]
      by (simp add: s0_def nt_def ng_def)
    with R(2,3) show ?thesis by (simp add: ms)
  qed
  with W h show "\<exists>W h. consensus s0 = Inr W \<and> is_matrix W t g \<and> mean_abs_diff M W = Inr h
               \<and> (np_le h tolerance \<longrightarrow>
                    (\<exists>R. panda_loop C M P backend alpha = Some (Inr R) \<and> is_matrix R t g
                       \<and> (\<forall>i<t. \<forall>j<g. R ! i ! j
                             = np_add (np_mul (M ! i ! j) (Fin (1 - alpha)))
                                      (np_mul (Fin alpha) (W ! i ! j)))))"
    by (auto simp: ms)
qed

lemma matrix_2_2:
  assumes "is_matrix m 2 2"
  shows "m = [[m ! 0 ! 0, m ! 0 ! 1], [m ! 1 ! 0, m ! 1 ! 1]]"
proof -
  from assms have l: "length m = 2" "length (m ! 0) = 2" "length (m ! 1) = 2"
    by (simp_all add: is_matrix_def list_all_length)
  have two: "xs = [xs ! 0, xs ! 1]" if "length xs = 2" for xs :: "'b list"
    using that by (cases xs; cases "tl xs") auto
  from two[OF l(1)] two[OF l(2)] two[OF l(3)] show ?thesis by metis
qed

theorem first_pass_always_runs_witness:
  "is_matrix [[Fin (1/2000), Fin 0], [Fin 0, Fin (1/2000)]] 2 2
   \<and> is_matrix [[Fin 0, Fin 0], [Fin 0, Fin 0]] 2 2
   \<and> is_matrix [[Fin 0, Fin (1/2000)], [Fin (1/2000), Fin 0]] 2 2
   \<and> consensus (initial_state [[Fin 0, Fin (1/2000)], [Fin (1/2000), Fin 0]]
        [[Fin (1/2000), Fin 0], [Fin 0, Fin (1/2000)]] [[Fin 0, Fin 0], [Fin 0, Fin 0]])
      = Inr [[Fin 0, Fin (1/4000)], [Fin (1/4000), Fin 0]]
   \<and> mean_abs_diff [[Fin (1/2000), Fin 0], [Fin 0, Fin (1/2000)]]
        [[Fin 0, Fin (1/4000)], [Fin (1/4000), Fin 0]] = Inr (Fin (3/8000))
   \<and> np_le (Fin (3/8000)) tolerance
   \<and> panda_loop [[Fin 0, Fin (1/2000)], [Fin (1/2000), Fin 0]]
        [[Fin (1/2000), Fin 0], [Fin 0, Fin (1/2000)]] [[Fin 0, Fin 0], [Fin 0, Fin 0]] Cpu (1/10)
      = Some (Inr [[Fin (9/20000), Fin (1/40000)], [Fin (1/40000), Fin (9/20000)]])"
proof -
  let ?M = "[[Fin (1/2000), Fin 0], [Fin 0, Fin (1/2000)]]"
  let ?P = "[[Fin 0, Fin 0], [Fin 0, Fin 0]]"
  let ?C = "[[Fin 0, Fin (1/2000)], [Fin (1/2000), Fin 0]]"
  let ?W = "[[Fin 0, Fin (1/4000)], [Fin (1/4000), Fin 0]]"
  have sh: "is_matrix ?M 2 2" "is_matrix ?P 2 2" "is_matrix ?C 2 2"
    by (simp_all add: is_matrix_def)
  have c: "consensus (initial_state ?C ?M ?P) = Inr ?W"
    by (simp add: initial_state_def arr_defs upt2 sqrt_frac_4000000)
  have h: "mean_abs_diff ?M ?W = Inr (Fin (3/8000))"
    by (simp add: arr_defs upt2)
  have le: "np_le (Fin (3/8000)) tolerance"
    by (simp add: tolerance_def)
  have "(Cpu = Cpu \<or> Cpu = Gpu) \<and> is_matrix ?M 2 2 \<and> is_matrix ?P 2 2
            \<and> is_matrix ?C 2 2 \<and> (0::nat) < 2 \<and> (0::nat) < 2"
    using sh by simp
  with first_pass_always_runs[of ?C ?M ?P Cpu "1/10" 2 2]
  obtain W' h' where W': "consensus (initial_state ?C ?M ?P) = Inr W'"
    "mean_abs_diff ?M W' = Inr h'"
    "np_le h' tolerance \<longrightarrow>
       (\<exists>R. panda_loop ?C ?M ?P Cpu (1/10) = Some (Inr R) \<and> is_matrix R 2 2
          \<and> (\<forall>i<2. \<forall>j<2. R ! i ! j
                = np_add (np_mul (?M ! i ! j) (Fin (1 - 1/10))) (np_mul (Fin (1/10)) (W' ! i ! j))))"
    by blast
  from W'(1) c have "W' = ?W" by simp
  with W'(2) h have "h' = Fin (3/8000)" by simp
  with W'(3) le \<open>W' = ?W\<close>
  obtain R where R: "panda_loop ?C ?M ?P Cpu (1/10) = Some (Inr R)" "is_matrix R 2 2"
    "\<forall>i<2. \<forall>j<2. R ! i ! j
        = np_add (np_mul (?M ! i ! j) (Fin (1 - 1/10))) (np_mul (Fin (1/10)) (?W ! i ! j))"
    by blast
  from R(3) have "R ! 0 ! 0 = Fin (9/20000)" "R ! 0 ! 1 = Fin (1/40000)"
    "R ! 1 ! 0 = Fin (1/40000)" "R ! 1 ! 1 = Fin (9/20000)"
    by (simp_all add: numeral_2_eq_2 All_less_Suc)
  with matrix_2_2[OF R(2)]
  have "R = [[Fin (9/20000), Fin (1/40000)], [Fin (1/40000), Fin (9/20000)]]" by simp
  with R(1) sh c h le show ?thesis by simp
qed

text \<open>
  Claim C10 as stated fails: with the 1-by-1 matrices \<open>M0 = [[0]]\<close>, \<open>P0 = [[1]]\<close>,
  \<open>C0 = [[1]]\<close> the consensus update is \<open>W0 = [[0]] = M0\<close>, the one pass blends \<open>M0\<close> with
  itself, and the returned matrix is the input \<open>M0\<close>, unmodified.
\<close>

theorem panda_loop_returns_input:
  "panda_loop [[Fin 1]] [[Fin 0]] [[Fin 1]] Cpu (1/10) = Some (Inr [[Fin 0]])"
proof -
  let ?s = "initial_state [[Fin 1]] [[Fin 0]] [[Fin 1]]"
  have c: "consensus ?s = Inr [[Fin 0]]"
    by (simp add: initial_state_def arr_defs)
  have h: "mean_abs_diff (motif_matrix ?s) [[Fin 0]] = Inr (Fin 0)"
    by (simp add: initial_state_def arr_defs)
  have b: "blend (1/10) (motif_matrix ?s) [[Fin 0]] = Inr [[Fin 0]]"
    by (simp add: initial_state_def arr_defs)
  have ng: "\<not> np_gt (Fin 0) tolerance" by (simp add: tolerance_def)
  have p: "panda_pass Cpu (1/10) (shape0 [[Fin 0]]) (shape1 [[Fin 0]]) ?s
             = Inr (?s\<lparr>motif_matrix := [[Fin 0]], hamming := Fin 0, step := step ?s + 1\<rparr>)"
    by (rule panda_pass_terminal[OF _ c h b ng]) simp
  show ?thesis
    unfolding panda_loop_first_pass p
    using ng by (simp add: panda_while_stop)
qed

section \<open>The end of the loop\<close>

text \<open>A pass that goes on to update the PPI and correlation matrices has called
  \<^verbatim>\<open>math.exp(2 * alpha * step)\<close>, which returned.\<close>

lemma update_diagonal_Inr:
  "update_diagonal m num alpha stp = Inr u \<Longrightarrow> \<exists>e. math_exp (2 * alpha * real stp) = Inr e"
  by (cases "math_exp (2 * alpha * real stp)") (simp_all add: update_diagonal_def Let_def)

lemma update_diagonal_Inl:
  "update_diagonal m num alpha stp = Inl e \<Longrightarrow> e = OverflowError"
  by (auto simp: update_diagonal_def Let_def math_exp_def split: if_splits)

lemma array_pass_Inr:
  assumes "array_pass alpha nt ng s = Inr s'"
  shows "step s' = step s"
    and "np_gt (hamming s') tolerance \<Longrightarrow> \<exists>e. math_exp (2 * alpha * real (step s)) = Inr e"
proof -
  from assms obtain W h m where W: "consensus s = Inr W"
    and h: "mean_abs_diff (motif_matrix s) W = Inr h"
    and m: "blend alpha (motif_matrix s) W = Inr m"
    and rest: "(if np_gt h tolerance then
            bind_err (t_function m None) (\<lambda>ppi0.
            bind_err (update_diagonal ppi0 nt alpha (step s)) (\<lambda>ppi.
            bind_err (blend alpha (ppi_matrix s) ppi) (\<lambda>p.
            bind_err (t_function (np_transpose m) None) (\<lambda>motif0.
            bind_err (update_diagonal motif0 ng alpha (step s)) (\<lambda>motif.
            bind_err (blend alpha (correlation_matrix s) motif) (\<lambda>c.
              Inr (s\<lparr>motif_matrix := m, hamming := h, ppi_matrix := p, correlation_matrix := c\<rparr>)))))))
          else Inr (s\<lparr>motif_matrix := m, hamming := h\<rparr>)) = Inr s'"
    by (auto simp: array_pass_def Let_def bind_err_eq_Inr)
  show "step s' = step s"
    using rest by (auto simp: bind_err_eq_Inr split: if_splits)
  show "\<exists>e. math_exp (2 * alpha * real (step s)) = Inr e" if "np_gt (hamming s') tolerance"
  proof (cases "np_gt h tolerance")
    case False
    with rest have "hamming s' = h" by auto
    with that False show ?thesis by simp
  next
    case True
    with rest obtain ppi0 ppi where "update_diagonal ppi0 nt alpha (step s) = Inr ppi"
      by (auto simp: bind_err_eq_Inr)
    then show ?thesis by (rule update_diagonal_Inr)
  qed
qed

lemma panda_pass_Inr:
  assumes "backend = Cpu \<or> backend = Gpu" and "panda_pass backend alpha nt ng s = Inr s'"
  shows "step s' = step s + 1"
    and "np_gt (hamming s') tolerance \<Longrightarrow> \<exists>e. math_exp (2 * alpha * real (step s)) = Inr e"
proof -
  from assms obtain s1 where s1: "array_pass alpha nt ng s = Inr s1"
    and s': "s' = s1\<lparr>step := step s + 1\<rparr>"
    by (auto simp: panda_pass_def bind_err_eq_Inr)
  show "step s' = step s + 1" using s' by simp
  show "\<exists>e. math_exp (2 * alpha * real (step s)) = Inr e" if "np_gt (hamming s') tolerance"
    using array_pass_Inr(2)[OF s1] that s' by simp
qed

text \<open>With a positive learning rate \<^verbatim>\<open>math.exp(2 * alpha * step)\<close> overflows from some step on.\<close>

lemma math_exp_overflows:
  assumes "0 < alpha"
  shows "\<exists>N. \<forall>n\<ge>N. math_exp (2 * alpha * real n) = Inl OverflowError"
proof -
  obtain N :: nat where N: "float_max / (2 * alpha) < real N"
    using reals_Archimedean2 by blast
  have "math_exp (2 * alpha * real n) = Inl OverflowError" if "N \<le> n" for n
  proof -
    from N that have "float_max / (2 * alpha) < real n" by simp
    with assms have "float_max < 2 * alpha * real n"
      by (simp add: pos_divide_less_eq mult.commute)
    also have "\<dots> < 1 + 2 * alpha * real n" by simp
    also have "\<dots> \<le> exp (2 * alpha * real n)" by (rule exp_ge_add_one_self)
    finally show ?thesis by (simp add: math_exp_def)
  qed
  then show ?thesis by blast
qed

text \<open>So on the two backends, with a positive learning rate, the loop always ends: it
  returns or an exception ends it.\<close>

lemma panda_while_ends:
  assumes b: "backend = Cpu \<or> backend = Gpu" and a: "0 < alpha"
  shows "\<exists>r. panda_while backend alpha nt ng s = Some r"
proof -
  from math_exp_overflows[OF a] obtain N
    where N: "\<forall>n\<ge>N. math_exp (2 * alpha * real n) = Inl OverflowError" by blast
  have "\<exists>r. panda_while backend alpha nt ng s = Some r" if "N \<le> step s + k" for k s
    using that
  proof (induction k arbitrary: s)
    case 0
    show ?case
    proof (cases "np_gt (hamming s) tolerance")
      case False then show ?thesis by (simp add: panda_while_stop)
    next
      case True
      show ?thesis
      proof (cases "panda_pass backend alpha nt ng s")
        case (Inl e)
        then show ?thesis using panda_while_raise[OF True Inl] by simp
      next
        case (Inr s')
        from 0 N have "math_exp (2 * alpha * real (step s)) = Inl OverflowError" by simp
        with panda_pass_Inr(2)[OF b Inr] have "\<not> np_gt (hamming s') tolerance" by auto
        then have "panda_while backend alpha nt ng s' = Some (Inr s')" by (rule panda_while_stop)
        then show ?thesis using panda_while_unfold[OF True Inr] by simp
      qed
    qed
  next
    case (Suc k)
    show ?case
    proof (cases "np_gt (hamming s) tolerance")
      case False then show ?thesis by (simp add: panda_while_stop)
    next
      case True
      show ?thesis
      proof (cases "panda_pass backend alpha nt ng s")
        case (Inl e)
        then show ?thesis using panda_while_raise[OF True Inl] by simp
      next
        case (Inr s')
        from panda_pass_Inr(1)[OF b Inr] Suc.prems have "N \<le> step s' + k" by simp
        from Suc.IH[OF this] show ?thesis using panda_while_unfold[OF True Inr] by simp
      qed
    qed
  qed
  from this[of s N] show ?thesis by simp
qed

section \<open>The shapes are kept and the only exception is the overflow\<close>

lemma is_matrix_fill_diagonal: "is_matrix a r c \<Longrightarrow> is_matrix (fill_diagonal a v) r c"
  by (intro is_matrixI) (simp_all add: fill_diagonal_def is_matrix_length is_matrix_row)

lemma t_function_self_matrix:
  "\<exists>T. t_function x None = Inr T \<and> is_matrix T (length x) (length x)"
proof -
  obtain a where a: "np_dot x (np_transpose x) = Inr a" by (simp add: np_dot_transpose)
  show ?thesis
    by (simp add: t_function_def a Let_def) (intro is_matrixI, simp_all)
qed

lemma update_diagonal_matrix:
  assumes "update_diagonal m num alpha stp = Inr u" and "is_matrix m r c"
  shows "is_matrix u r c"
proof -
  from update_diagonal_Inr[OF assms(1)] obtain e
    where e: "math_exp (2 * alpha * real stp) = Inr e" by blast
  from assms(1) have "u = fill_diagonal (fill_diagonal m (\<lambda>i. NaN))
      (\<lambda>i. map (\<lambda>sd. np_mul (np_mul sd (Fin (real num))) (Fin e))
              (map np_nanstd (fill_diagonal m (\<lambda>i. NaN))) ! i)"
    by (simp add: update_diagonal_def Let_def e)
  then show ?thesis
    using assms(2) by (simp add: is_matrix_fill_diagonal)
qed

text \<open>The update of one of the two square matrices: similarity of the rows of \<open>x\<close>, new
  diagonal, blend.\<close>

lemma square_update:
  assumes x: "is_matrix x n k" and q: "is_matrix q n n" and n: "0 < n"
  shows "(\<exists>T. t_function x None = Inr T
            \<and> ((\<exists>U q'. update_diagonal T num alpha stp = Inr U \<and> blend alpha q U = Inr q'
                    \<and> is_matrix q' n n)
               \<or> update_diagonal T num alpha stp = Inl OverflowError))"
proof -
  from t_function_self_matrix[of x] x obtain T
    where T: "t_function x None = Inr T" "is_matrix T n n"
    by (auto simp: is_matrix_length)
  show ?thesis
  proof (cases "update_diagonal T num alpha stp")
    case (Inl e)
    with update_diagonal_Inl[OF Inl] T(1) show ?thesis by simp
  next
    case (Inr U)
    from update_diagonal_matrix[OF Inr T(2)] have "is_matrix U n n" .
    from blend_matrix[OF q this n, of alpha] obtain q'
      where "blend alpha q U = Inr q'" "is_matrix q' n n" by blast
    with Inr T(1) show ?thesis by blast
  qed
qed

lemma array_pass_shapes:
  assumes M: "is_matrix (motif_matrix s) t g" and P: "is_matrix (ppi_matrix s) t t"
    and C: "is_matrix (correlation_matrix s) g g" and t: "0 < t" and g: "0 < g"
  shows "array_pass alpha nt ng s = Inl OverflowError
       \<or> (\<exists>s'. array_pass alpha nt ng s = Inr s' \<and> is_matrix (motif_matrix s') t g
              \<and> is_matrix (ppi_matrix s') t t \<and> is_matrix (correlation_matrix s') g g)"
proof -
  from consensus_matrix[OF M P C t g] obtain W
    where W: "consensus s = Inr W" "is_matrix W t g" by blast
  from mean_abs_diff_matrix[OF M W(2) t] obtain h
    where h: "mean_abs_diff (motif_matrix s) W = Inr h" by blast
  from blend_matrix[OF M W(2) t, of alpha] obtain m
    where m: "blend alpha (motif_matrix s) W = Inr m" "is_matrix m t g" by blast
  show ?thesis
  proof (cases "np_gt h tolerance")
    case False
    then have "array_pass alpha nt ng s = Inr (s\<lparr>motif_matrix := m, hamming := h\<rparr>)"
      by (simp add: array_pass_def W(1) h m(1))
    with m(2) P C show ?thesis by simp
  next
    case True
    from square_update[OF m(2) P t, of nt alpha "step s"] obtain T
      where T: "t_function m None = Inr T"
        "(\<exists>U q'. update_diagonal T nt alpha (step s) = Inr U \<and> blend alpha (ppi_matrix s) U = Inr q'
                    \<and> is_matrix q' t t)
         \<or> update_diagonal T nt alpha (step s) = Inl OverflowError" by blast
    from T(2) show ?thesis
    proof
      assume "update_diagonal T nt alpha (step s) = Inl OverflowError"
      then have "array_pass alpha nt ng s = Inl OverflowError"
        by (simp add: array_pass_def W(1) h m(1) True T(1))
      then show ?thesis by simp
    next
      assume "\<exists>U q'. update_diagonal T nt alpha (step s) = Inr U
                \<and> blend alpha (ppi_matrix s) U = Inr q' \<and> is_matrix q' t t"
      then obtain U p where U: "update_diagonal T nt alpha (step s) = Inr U"
        and p: "blend alpha (ppi_matrix s) U = Inr p" "is_matrix p t t" by blast
      from square_update[OF is_matrix_np_transpose[OF m(2) t] C g, of ng alpha "step s"] obtain T'
        where T': "t_function (np_transpose m) None = Inr T'"
          "(\<exists>U q'. update_diagonal T' ng alpha (step s) = Inr U
                  \<and> blend alpha (correlation_matrix s) U = Inr q' \<and> is_matrix q' g g)
           \<or> update_diagonal T' ng alpha (step s) = Inl OverflowError" by blast
      from T'(2) show ?thesis
      proof
        assume "update_diagonal T' ng alpha (step s) = Inl OverflowError"
        then have "array_pass alpha nt ng s = Inl OverflowError"
          by (simp add: array_pass_def W(1) h m(1) True T(1) U p(1) T'(1))
        then show ?thesis by simp
      next
        assume "\<exists>U q'. update_diagonal T' ng alpha (step s) = Inr U
                  \<and> blend alpha (correlation_matrix s) U = Inr q' \<and> is_matrix q' g g"
        then obtain U' c where U': "update_diagonal T' ng alpha (step s) = Inr U'"
          and c: "blend alpha (correlation_matrix s) U' = Inr c" "is_matrix c g g" by blast
        have "array_pass alpha nt ng s
                = Inr (s\<lparr>motif_matrix := m, hamming := h, ppi_matrix := p, correlation_matrix := c\<rparr>)"
          by (simp add: array_pass_def W(1) h m(1) True T(1) U p(1) T'(1) U' c(1))
        with m(2) p(2) c(2) show ?thesis by simp
      qed
    qed
  qed
qed

lemma panda_pass_shapes:
  assumes b: "backend = Cpu \<or> backend = Gpu"
    and M: "is_matrix (motif_matrix s) t g" and P: "is_matrix (ppi_matrix s) t t"
    and C: "is_matrix (correlation_matrix s) g g" and t: "0 < t" and g: "0 < g"
  shows "panda_pass backend alpha nt ng s = Inl OverflowError
       \<or> (\<exists>s'. panda_pass backend alpha nt ng s = Inr s' \<and> is_matrix (motif_matrix s') t g
              \<and> is_matrix (ppi_matrix s') t t \<and> is_matrix (correlation_matrix s') g g)"
  using array_pass_shapes[OF M P C t g, of alpha nt ng] b
  by (auto simp: panda_pass_def)

lemma after_passes_shapes:
  assumes b: "backend = Cpu \<or> backend = Gpu" and t: "0 < t" and g: "0 < g"
  shows "is_matrix (motif_matrix s) t g \<Longrightarrow> is_matrix (ppi_matrix s) t t \<Longrightarrow>
         is_matrix (correlation_matrix s) g g \<Longrightarrow>
         after_passes backend alpha nt ng n s = Inr s' \<Longrightarrow>
         is_matrix (motif_matrix s') t g \<and> is_matrix (ppi_matrix s') t t
           \<and> is_matrix (correlation_matrix s') g g"
proof (induction n arbitrary: s)
  case 0
  then show ?case by simp
next
  case (Suc n)
  from Suc.prems(4) obtain s1 where s1: "panda_pass backend alpha nt ng s = Inr s1"
    and r: "after_passes backend alpha nt ng n s1 = Inr s'"
    by (auto split: sum.splits)
  from panda_pass_shapes[OF b Suc.prems(1-3) t g, of alpha nt ng] s1
  have "is_matrix (motif_matrix s1) t g" "is_matrix (ppi_matrix s1) t t"
    "is_matrix (correlation_matrix s1) g g" by auto
  from Suc.IH[OF this r] show ?case .
qed

text \<open>
  Claim C8, as the code has it. The loop has no iteration cap and its test is its only
  normal exit: a call returns a matrix only after a pass that left a metric not above
  0.001, which is a metric \<open>\<le> 0.001\<close> or a NaN metric, every earlier pass having left a
  metric above 0.001; a call ended by an exception has run passes with a metric above
  0.001 until a pass raised; and a call never ends exactly when no pass raises and the
  metric is above 0.001 after every number of passes. That does not happen on the two
  backends with a positive learning rate: there the call always ends, because
  \<^verbatim>\<open>math.exp(2 * alpha * step)\<close> overflows once the step is large enough, and for a
  TFs-by-genes motif matrix with a TFs-by-TFs PPI matrix and a genes-by-genes correlation
  matrix \<^verbatim>\<open>OverflowError\<close> is the only exception that ends it.
\<close>

theorem panda_loop_exits:
  fixes C M P :: ndarray and backend :: computing and alpha :: real and t g :: nat
  defines "s0 \<equiv> initial_state C M P"
  defines "nt \<equiv> shape0 M" and "ng \<equiv> shape1 M"
  shows "(\<forall>m. panda_loop C M P backend alpha = Some (Inr m) \<longrightarrow>
            (\<exists>n sn. after_passes backend alpha nt ng (Suc n) s0 = Inr sn \<and> m = motif_matrix sn
               \<and> (np_le (hamming sn) tolerance \<or> np_isnan (hamming sn))
               \<and> (\<forall>k\<le>n. \<exists>sk. after_passes backend alpha nt ng k s0 = Inr sk
                            \<and> np_gt (hamming sk) tolerance)))
       \<and> (\<forall>e. panda_loop C M P backend alpha = Some (Inl e) \<longrightarrow>
            (\<exists>n sn. after_passes backend alpha nt ng n s0 = Inr sn
               \<and> panda_pass backend alpha nt ng sn = Inl e
               \<and> (\<forall>k\<le>n. \<exists>sk. after_passes backend alpha nt ng k s0 = Inr sk
                            \<and> np_gt (hamming sk) tolerance)))
       \<and> ((panda_loop C M P backend alpha = None)
            = (\<forall>n. \<exists>sn. after_passes backend alpha nt ng n s0 = Inr sn
                       \<and> np_gt (hamming sn) tolerance))
       \<and> ((backend = Cpu \<or> backend = Gpu) \<and> 0 < alpha \<longrightarrow>
            panda_loop C M P backend alpha \<noteq> None)
       \<and> ((backend = Cpu \<or> backend = Gpu) \<and> is_matrix M t g \<and> is_matrix P t t
            \<and> is_matrix C g g \<and> 0 < t \<and> 0 < g \<longrightarrow>
            (\<forall>e. panda_loop C M P backend alpha = Some (Inl e) \<longrightarrow> e = OverflowError))"
proof (intro conjI allI impI)
  fix m assume "panda_loop C M P backend alpha = Some (Inr m)"
  then obtain r where r: "panda_while backend alpha nt ng s0 = Some r"
    and mr: "map_sum id motif_matrix r = Inr m"
    by (auto simp: panda_loop_def s0_def nt_def ng_def)
  from mr obtain u where u: "r = Inr u" and m: "m = motif_matrix u"
    by (cases r) auto
  from panda_while_Inr_iter[OF r] u obtain n
    where n: "after_passes backend alpha nt ng n s0 = Inr u"
      "\<not> np_gt (hamming u) tolerance"
      "\<forall>k<n. \<exists>sk. after_passes backend alpha nt ng k s0 = Inr sk \<and> np_gt (hamming sk) tolerance"
    by blast
  have "n \<noteq> 0"
  proof
    assume "n = 0"
    with n have "\<not> np_gt (hamming s0) tolerance" by simp
    then show False using hamming_initial by (simp add: s0_def)
  qed
  then obtain j where j: "n = Suc j" by (cases n) auto
  from n(2) have "np_le (hamming u) tolerance \<or> np_isnan (hamming u)"
    by (simp add: not_np_gt_tolerance)
  moreover from n(3) j
  have "\<forall>k\<le>j. \<exists>sk. after_passes backend alpha nt ng k s0 = Inr sk \<and> np_gt (hamming sk) tolerance"
    by (simp add: less_Suc_eq_le)
  ultimately
  have "after_passes backend alpha nt ng (Suc j) s0 = Inr u \<and> m = motif_matrix u
               \<and> (np_le (hamming u) tolerance \<or> np_isnan (hamming u))
               \<and> (\<forall>k\<le>j. \<exists>sk. after_passes backend alpha nt ng k s0 = Inr sk
                            \<and> np_gt (hamming sk) tolerance)"
    using n(1) j m by simp
  then show "\<exists>n sn. after_passes backend alpha nt ng (Suc n) s0 = Inr sn \<and> m = motif_matrix sn
               \<and> (np_le (hamming sn) tolerance \<or> np_isnan (hamming sn))
               \<and> (\<forall>k\<le>n. \<exists>sk. after_passes backend alpha nt ng k s0 = Inr sk
                            \<and> np_gt (hamming sk) tolerance)"
    by blast
next
  fix e assume "panda_loop C M P backend alpha = Some (Inl e)"
  then obtain r where r: "panda_while backend alpha nt ng s0 = Some r"
    and mr: "map_sum id motif_matrix r = Inl e"
    by (auto simp: panda_loop_def s0_def nt_def ng_def)
  from mr have u: "r = Inl e" by (cases r) auto
  from panda_while_Inl_iter[OF r] u obtain n sn
    where n: "after_passes backend alpha nt ng n s0 = Inr sn" "np_gt (hamming sn) tolerance"
      "panda_pass backend alpha nt ng sn = Inl e"
      "\<forall>k<n. \<exists>sk. after_passes backend alpha nt ng k s0 = Inr sk \<and> np_gt (hamming sk) tolerance"
    by blast
  have "\<exists>sk. after_passes backend alpha nt ng k s0 = Inr sk \<and> np_gt (hamming sk) tolerance"
    if "k \<le> n" for k
  proof (cases "k = n")
    case True with n(1,2) show ?thesis by simp
  next
    case False
    with that have "k < n" by simp
    with n(4) show ?thesis by blast
  qed
  with n(1,3)
  show "\<exists>n sn. after_passes backend alpha nt ng n s0 = Inr sn
               \<and> panda_pass backend alpha nt ng sn = Inl e
               \<and> (\<forall>k\<le>n. \<exists>sk. after_passes backend alpha nt ng k s0 = Inr sk
                            \<and> np_gt (hamming sk) tolerance)"
    by blast
next
  show "(panda_loop C M P backend alpha = None)
            = (\<forall>n. \<exists>sn. after_passes backend alpha nt ng n s0 = Inr sn
                       \<and> np_gt (hamming sn) tolerance)"
    unfolding panda_loop_def s0_def nt_def ng_def by (simp add: panda_while_None_iff)
next
  assume "(backend = Cpu \<or> backend = Gpu) \<and> 0 < alpha"
  then have b: "backend = Cpu \<or> backend = Gpu" and a: "0 < alpha" by simp_all
  from panda_while_ends[OF b a, of nt ng s0]
  show "panda_loop C M P backend alpha \<noteq> None"
    by (auto simp: panda_loop_def s0_def nt_def ng_def)
next
  fix e
  assume a: "(backend = Cpu \<or> backend = Gpu) \<and> is_matrix M t g \<and> is_matrix P t t
            \<and> is_matrix C g g \<and> 0 < t \<and> 0 < g"
    and l: "panda_loop C M P backend alpha = Some (Inl e)"
  have ms: "motif_matrix s0 = M" "ppi_matrix s0 = P" "correlation_matrix s0 = C"
    by (simp_all add: s0_def initial_state_def)
  from a have b: "backend = Cpu \<or> backend = Gpu" and M: "is_matrix (motif_matrix s0) t g"
    and P: "is_matrix (ppi_matrix s0) t t" and C: "is_matrix (correlation_matrix s0) g g"
    and t: "0 < t" and g: "0 < g"
    by (simp_all add: ms)
  from l obtain r where r: "panda_while backend alpha nt ng s0 = Some r"
    and mr: "map_sum id motif_matrix r = Inl e"
    by (auto simp: panda_loop_def s0_def nt_def ng_def)
  from mr have u: "r = Inl e" by (cases r) auto
  from panda_while_Inl_iter[OF r] u obtain n sn
    where n: "after_passes backend alpha nt ng n s0 = Inr sn"
      "panda_pass backend alpha nt ng sn = Inl e"
    by blast
  from after_passes_shapes[OF b t g M P C n(1)]
  have "is_matrix (motif_matrix sn) t g" "is_matrix (ppi_matrix sn) t t"
    "is_matrix (correlation_matrix sn) g g" by simp_all
  from panda_pass_shapes[OF b this t g, of alpha nt ng] n(2)
  show "e = OverflowError" by auto
qed

section \<open>Two runs on a diagonal motif matrix\<close>

lemma float_max_ge_1: "1 \<le> float_max"
  by (simp add: float_max_def)

lemma math_exp_0: "math_exp 0 = Inr 1"
  using float_max_ge_1 by (simp add: math_exp_def)

lemmas pass_defs = panda_pass_def array_pass_def update_diagonal_def fill_diagonal_def
  np_nanstd_def np_std_def

text \<open>
  With the learning rate 2, no PPI and no correlation, the motif matrix \<open>x * I\<close> with
  \<open>x = 1\<close> or \<open>x = -1\<close> changes its sign on every pass and the metric is 1/2 on every
  pass, until \<^verbatim>\<open>math.exp\<close> overflows.
\<close>

lemma flip_pass:
  assumes "x = 1 \<or> x = -1"
  shows "panda_pass Cpu 2 2 2
           \<lparr>motif_matrix = [[Fin x, Fin 0], [Fin 0, Fin x]],
            ppi_matrix = [[Fin 0, Fin 0], [Fin 0, Fin 0]],
            correlation_matrix = [[Fin 0, Fin 0], [Fin 0, Fin 0]],
            step = n, hamming = h\<rparr>
         = (if float_max < exp (4 * real n) then Inl OverflowError
            else Inr \<lparr>motif_matrix = [[Fin (- x), Fin 0], [Fin 0, Fin (- x)]],
                      ppi_matrix = [[Fin 0, Fin 0], [Fin 0, Fin 0]],
                      correlation_matrix = [[Fin 0, Fin 0], [Fin 0, Fin 0]],
                      step = n + 1, hamming = Fin (1/2)\<rparr>)"
  using assms
  by (elim disjE) (simp_all add: pass_defs arr_defs math_exp_def upt2 Let_def)

text \<open>With the learning rate 0 the same state is a fixed point: nothing changes but the
  step counter, and the metric is 1/2 on every pass.\<close>

lemma idle_pass:
  "panda_pass Cpu 0 2 2
           \<lparr>motif_matrix = [[Fin 1, Fin 0], [Fin 0, Fin 1]],
            ppi_matrix = [[Fin 0, Fin 0], [Fin 0, Fin 0]],
            correlation_matrix = [[Fin 0, Fin 0], [Fin 0, Fin 0]],
            step = n, hamming = h\<rparr>
         = Inr \<lparr>motif_matrix = [[Fin 1, Fin 0], [Fin 0, Fin 1]],
                ppi_matrix = [[Fin 0, Fin 0], [Fin 0, Fin 0]],
                correlation_matrix = [[Fin 0, Fin 0], [Fin 0, Fin 0]],
                step = n + 1, hamming = Fin (1/2)\<rparr>"
  by (simp add: pass_defs arr_defs math_exp_0 upt2 Let_def)

lemma flip_loop:
  assumes N: "float_max < exp (4 * real N)"
  shows "x = 1 \<or> x = -1 \<Longrightarrow> np_gt h tolerance \<Longrightarrow> n + k = N \<Longrightarrow>
         panda_while Cpu 2 2 2
           \<lparr>motif_matrix = [[Fin x, Fin 0], [Fin 0, Fin x]],
            ppi_matrix = [[Fin 0, Fin 0], [Fin 0, Fin 0]],
            correlation_matrix = [[Fin 0, Fin 0], [Fin 0, Fin 0]],
            step = n, hamming = h\<rparr>
         = Some (Inl OverflowError)"
proof (induction k arbitrary: x h n)
  case 0
  then have "n = N" by simp
  with N flip_pass[OF 0(1), of n h]
  have "panda_pass Cpu 2 2 2
           \<lparr>motif_matrix = [[Fin x, Fin 0], [Fin 0, Fin x]],
            ppi_matrix = [[Fin 0, Fin 0], [Fin 0, Fin 0]],
            correlation_matrix = [[Fin 0, Fin 0], [Fin 0, Fin 0]],
            step = n, hamming = h\<rparr> = Inl OverflowError"
    by simp
  then show ?case using 0(2) by (intro panda_while_raise) simp_all
next
  case (Suc k)
  let ?s = "\<lparr>motif_matrix = [[Fin x, Fin 0], [Fin 0, Fin x]],
            ppi_matrix = [[Fin 0, Fin 0], [Fin 0, Fin 0]],
            correlation_matrix = [[Fin 0, Fin 0], [Fin 0, Fin 0]],
            step = n, hamming = h\<rparr>"
  have g: "np_gt (hamming ?s) tolerance" using Suc.prems(2) by simp
  show ?case
  proof (cases "float_max < exp (4 * real n)")
    case True
    with flip_pass[OF Suc.prems(1), of n h]
    have "panda_pass Cpu 2 2 2 ?s = Inl OverflowError" by simp
    then show ?thesis by (rule panda_while_raise[OF g])
  next
    case False
    let ?s' = "\<lparr>motif_matrix = [[Fin (- x), Fin 0], [Fin 0, Fin (- x)]],
                      ppi_matrix = [[Fin 0, Fin 0], [Fin 0, Fin 0]],
                      correlation_matrix = [[Fin 0, Fin 0], [Fin 0, Fin 0]],
                      step = n + 1, hamming = Fin (1/2)\<rparr>"
    from False flip_pass[OF Suc.prems(1), of n h]
    have p: "panda_pass Cpu 2 2 2 ?s = Inr ?s'" by simp
    from Suc.prems(1) have x: "- x = 1 \<or> - x = -1" by auto
    have t: "np_gt (Fin (1/2)) tolerance" by (simp add: tolerance_def)
    from Suc.prems(3) have "(n + 1) + k = N" by simp
    from Suc.IH[OF x t this] show ?thesis
      by (simp only: panda_while_unfold[OF g p])
  qed
qed

text \<open>
  Claim C8 as stated fails: with \<open>alpha = 2\<close>, \<open>M = I\<close> and \<open>P = C = 0\<close> (2 by 2) the metric
  is 1/2 after every pass, above 0.001 for as long as the loop runs, and yet the call
  ends: \<^verbatim>\<open>math.exp(2 * alpha * step)\<close> raises \<^verbatim>\<open>OverflowError\<close>.
\<close>

theorem panda_loop_overflow:
  "panda_loop [[Fin 0, Fin 0], [Fin 0, Fin 0]] [[Fin 1, Fin 0], [Fin 0, Fin 1]]
     [[Fin 0, Fin 0], [Fin 0, Fin 0]] Cpu 2 = Some (Inl OverflowError)"
proof -
  from math_exp_overflows[of 2] obtain N
    where "\<forall>n\<ge>N. math_exp (2 * 2 * real n) = Inl OverflowError" by auto
  then have "math_exp (4 * real N) = Inl OverflowError" by simp
  then have N: "float_max < exp (4 * real N)"
    by (simp add: math_exp_def split: if_splits)
  have t: "np_gt (Fin 1) tolerance" by (simp add: tolerance_def)
  have sh: "shape0 [[Fin 1, Fin 0], [Fin 0, Fin 1]] = 2" "shape1 [[Fin 1, Fin 0], [Fin 0, Fin 1]] = 2"
    by (simp_all add: shape0_def shape1_def)
  from flip_loop[OF N, of 1 "Fin 1" 0 N] t
  have "panda_while Cpu 2 2 2
          (initial_state [[Fin 0, Fin 0], [Fin 0, Fin 0]] [[Fin 1, Fin 0], [Fin 0, Fin 1]]
             [[Fin 0, Fin 0], [Fin 0, Fin 0]]) = Some (Inl OverflowError)"
    by (simp add: initial_state_def)
  then show ?thesis
    unfolding panda_loop_def sh by simp
qed

lemma idle_passes:
  "\<exists>h'. after_passes Cpu 0 2 2 n
           \<lparr>motif_matrix = [[Fin 1, Fin 0], [Fin 0, Fin 1]],
            ppi_matrix = [[Fin 0, Fin 0], [Fin 0, Fin 0]],
            correlation_matrix = [[Fin 0, Fin 0], [Fin 0, Fin 0]],
            step = k, hamming = h\<rparr>
         = Inr \<lparr>motif_matrix = [[Fin 1, Fin 0], [Fin 0, Fin 1]],
                ppi_matrix = [[Fin 0, Fin 0], [Fin 0, Fin 0]],
                correlation_matrix = [[Fin 0, Fin 0], [Fin 0, Fin 0]],
                step = k + n, hamming = h'\<rparr>
       \<and> (h' = h \<or> h' = Fin (1/2))"
proof (induction n arbitrary: k h)
  case 0
  then show ?case by simp
next
  case (Suc n)
  from Suc.IH[of "k + 1" "Fin (1/2)"] show ?case
    by (auto simp: idle_pass)
qed

lemma nan_exit_pass_1:
  "panda_pass Cpu (1/10) 1 1 (initial_state [[Fin 0]] [[Fin 1]] [[Fin 0]])
     = Inr \<lparr>motif_matrix = [[Fin (9/10)]], ppi_matrix = [[NaN]], correlation_matrix = [[NaN]],
            step = 1, hamming = Fin 1\<rparr>"
  by (simp add: initial_state_def pass_defs arr_defs math_exp_0 Let_def)

lemma nan_exit_pass_2:
  "panda_pass Cpu (1/10) 1 1
      \<lparr>motif_matrix = [[Fin (9/10)]], ppi_matrix = [[NaN]], correlation_matrix = [[NaN]],
       step = 1, hamming = Fin 1\<rparr>
     = Inr \<lparr>motif_matrix = [[NaN]], ppi_matrix = [[NaN]], correlation_matrix = [[NaN]],
            step = 2, hamming = NaN\<rparr>"
  by (simp add: pass_defs arr_defs Let_def)

lemma nan_exit_loop:
  "panda_loop [[Fin 0]] [[Fin 1]] [[Fin 0]] Cpu (1/10) = Some (Inr [[NaN]])"
proof -
  have g: "np_gt (hamming \<lparr>motif_matrix = [[Fin (9/10)]], ppi_matrix = [[NaN]],
       correlation_matrix = [[NaN]], step = 1, hamming = Fin 1\<rparr>) tolerance"
    by (simp add: tolerance_def)
  have "panda_while Cpu (1/10) 1 1
      \<lparr>motif_matrix = [[Fin (9/10)]], ppi_matrix = [[NaN]], correlation_matrix = [[NaN]],
       step = 1, hamming = Fin 1\<rparr>
     = Some (Inr \<lparr>motif_matrix = [[NaN]], ppi_matrix = [[NaN]], correlation_matrix = [[NaN]],
            step = 2, hamming = NaN\<rparr>)"
    by (simp only: panda_while_unfold[OF g nan_exit_pass_2]) (simp add: panda_while_stop)
  moreover have "shape0 [[Fin 1]] = 1" "shape1 [[Fin 1]] = 1"
    by (simp_all add: shape0_def shape1_def)
  ultimately show ?thesis
    by (simp only: panda_loop_first_pass nan_exit_pass_1) simp
qed

theorem panda_loop_exits_witness:
  "panda_loop [[Fin 0]] [[Fin 1]] [[Fin 0]] Cpu (1/10) = Some (Inr [[NaN]])
   \<and> (\<exists>n sn. after_passes Cpu (1/10) 1 1 (Suc n) (initial_state [[Fin 0]] [[Fin 1]] [[Fin 0]])
                = Inr sn
            \<and> [[NaN]] = motif_matrix sn
            \<and> (np_le (hamming sn) tolerance \<or> np_isnan (hamming sn)))
   \<and> panda_loop [[Fin 0, Fin 0], [Fin 0, Fin 0]] [[Fin 1, Fin 0], [Fin 0, Fin 1]]
        [[Fin 0, Fin 0], [Fin 0, Fin 0]] Cpu 0 = None
   \<and> panda_loop [[Fin 0, Fin 0], [Fin 0, Fin 0]] [[Fin 1, Fin 0], [Fin 0, Fin 1]]
        [[Fin 0, Fin 0], [Fin 0, Fin 0]] Cpu (1/10) \<noteq> None"
proof (intro conjI)
  show l: "panda_loop [[Fin 0]] [[Fin 1]] [[Fin 0]] Cpu (1/10) = Some (Inr [[NaN]])"
    by (rule nan_exit_loop)
  from panda_loop_exits[of "[[Fin 0]]" "[[Fin 1]]" "[[Fin 0]]" Cpu "1/10" 1 1] l
  have "\<exists>n sn. after_passes Cpu (1/10) (shape0 [[Fin 1]]) (shape1 [[Fin 1]]) (Suc n)
                  (initial_state [[Fin 0]] [[Fin 1]] [[Fin 0]]) = Inr sn
            \<and> [[NaN]] = motif_matrix sn
            \<and> (np_le (hamming sn) tolerance \<or> np_isnan (hamming sn))
            \<and> (\<forall>k\<le>n. \<exists>sk. after_passes Cpu (1/10) (shape0 [[Fin 1]]) (shape1 [[Fin 1]]) k
                  (initial_state [[Fin 0]] [[Fin 1]] [[Fin 0]]) = Inr sk
                            \<and> np_gt (hamming sk) tolerance)"
    by blast
  moreover have "shape0 [[Fin 1]] = 1" "shape1 [[Fin 1]] = 1"
    by (simp_all add: shape0_def shape1_def)
  ultimately
  show "\<exists>n sn. after_passes Cpu (1/10) 1 1 (Suc n) (initial_state [[Fin 0]] [[Fin 1]] [[Fin 0]])
                = Inr sn
            \<and> [[NaN]] = motif_matrix sn
            \<and> (np_le (hamming sn) tolerance \<or> np_isnan (hamming sn))"
    by (simp only:) blast
next
  let ?Z = "[[Fin 0, Fin 0], [Fin 0, Fin 0]]"
  let ?I = "[[Fin 1, Fin 0], [Fin 0, Fin 1]]"
  have sh: "shape0 ?I = 2" "shape1 ?I = 2"
    by (simp_all add: shape0_def shape1_def)
  have "\<exists>sn. after_passes Cpu 0 (shape0 ?I) (shape1 ?I) n (initial_state ?Z ?I ?Z) = Inr sn
            \<and> np_gt (hamming sn) tolerance" for n
    unfolding sh
    using idle_passes[of n 0 "Fin 1"]
    by (auto simp: initial_state_def tolerance_def)
  with panda_loop_exits[of ?Z ?I ?Z Cpu 0 2 2]
  show "panda_loop ?Z ?I ?Z Cpu 0 = None" by blast
next
  let ?Z = "[[Fin 0, Fin 0], [Fin 0, Fin 0]]"
  let ?I = "[[Fin 1, Fin 0], [Fin 0, Fin 1]]"
  from panda_loop_exits[of ?Z ?I ?Z Cpu "1/10" 2 2]
  have "(Cpu = Cpu \<or> Cpu = Gpu) \<and> (0::real) < 1/10 \<longrightarrow> panda_loop ?Z ?I ?Z Cpu (1/10) \<noteq> None"
    by (elim conjE)
  then show "panda_loop ?Z ?I ?Z Cpu (1/10) \<noteq> None" by simp
qed

end
